theory Spec2Isabelle
  imports Main "HOL-Library.Word"
begin

section \<open>JsonWebEncryption (msal-browser, utils/JsonWebEncryption.ts)\<close>

text \<open>
  \<^verbatim>\<open>rawJwe.split(".")\<close>: JavaScript's split on a one-character separator. The result
  always has at least one element; the empty string gives one empty segment.
\<close>

fun js_split :: "char \<Rightarrow> string \<Rightarrow> string list" where
  "js_split sep [] = [[]]"
| "js_split sep (c # cs) =
     (if c = sep then [] # js_split sep cs
      else (case js_split sep cs of
              [] \<Rightarrow> [[c]]
            | w # ws \<Rightarrow> (c # w) # ws))"

text \<open>
  \<^verbatim>\<open>jweAttributes[i]\<close>: reading a JavaScript array past its end gives
  \<^verbatim>\<open>undefined\<close>, written \<open>None\<close> here.
\<close>

definition js_index :: "'a list \<Rightarrow> nat \<Rightarrow> 'a option" where
  "js_index xs i = (if i < length xs then Some (xs ! i) else None)"

record 'h jwe =
  header :: 'h
  encryptedKey :: string
  initializationVector :: string
  ciphertext :: string
  authenticationTag :: string

text \<open>
  \<^verbatim>\<open>Base64Decode.decode\<close> (encode/Base64Decode.ts) is imported by the class and is
  taken as the parameter \<open>decode\<close>: it receives the segment, or \<^verbatim>\<open>undefined\<close>,
  and returns the decoded string or throws (\<open>Inl\<close>). \<^verbatim>\<open>JSON.parse\<close> is the
  parameter \<open>parse\<close>; its exception is caught and thrown again by
  \<^verbatim>\<open>parseJweProtectedHeader\<close>, so it propagates unchanged.
\<close>

definition parseJweProtectedHeader ::
  "(string option \<Rightarrow> 'e + string) \<Rightarrow> (string \<Rightarrow> 'e + 'h) \<Rightarrow> string option \<Rightarrow> 'e + 'h" where
  "parseJweProtectedHeader decode parse encodedHeader =
     (case decode encodedHeader of
        Inl e \<Rightarrow> Inl e
      | Inr decodedHeader \<Rightarrow>
          (case parse decodedHeader of
             Inl error \<Rightarrow> Inl error
           | Inr h \<Rightarrow> Inr h))"

text \<open>
  The constructor. The first component of the result lists, in call order, the arguments
  the decoder was called with; the second is the constructed object, or the exception that
  ended construction.
\<close>

definition JsonWebEncryption ::
  "(string option \<Rightarrow> 'e + string) \<Rightarrow> (string \<Rightarrow> 'e + 'h) \<Rightarrow> string
     \<Rightarrow> string option list \<times> ('e + 'h jwe)" where
  "JsonWebEncryption decode parse rawJwe =
     (let jweAttributes = js_split CHR ''.'' rawJwe;
          a0 = js_index jweAttributes 0;
          a1 = js_index jweAttributes 1;
          a2 = js_index jweAttributes 2;
          a3 = js_index jweAttributes 3;
          a4 = js_index jweAttributes 4
      in case parseJweProtectedHeader decode parse a0 of
           Inl e \<Rightarrow> ([a0], Inl e)
         | Inr h \<Rightarrow>
        (case decode a1 of
           Inl e \<Rightarrow> ([a0, a1], Inl e)
         | Inr ek \<Rightarrow>
        (case decode a2 of
           Inl e \<Rightarrow> ([a0, a1, a2], Inl e)
         | Inr iv \<Rightarrow>
        (case decode a3 of
           Inl e \<Rightarrow> ([a0, a1, a2, a3], Inl e)
         | Inr ct \<Rightarrow>
        (case decode a4 of
           Inl e \<Rightarrow> ([a0, a1, a2, a3, a4], Inl e)
         | Inr tag \<Rightarrow>
             ([a0, a1, a2, a3, a4],
              Inr \<lparr>header = h, encryptedKey = ek, initializationVector = iv,
                   ciphertext = ct, authenticationTag = tag\<rparr>))))))"

section \<open>The B2C PKCE sample application (src/unnamed/part_001)\<close>

subsection \<open>Configuration\<close>

text \<open>
  The module \<^verbatim>\<open>./policies\<close> is required by the application and is not part of the
  sources at hand; its values are a parameter. Each field holds the \<^verbatim>\<open>authority\<close>
  string of the policy object of that name under \<^verbatim>\<open>policies.authorities\<close>.
\<close>

record policies =
  signUpSignIn :: string
  resetPassword :: string
  editProfile :: string
  authorityDomain :: string

definition publicClientConfig_clientId :: string where
  "publicClientConfig_clientId = ''67ffe8a0-db42-464a-88d7-c26cbdd06ce2''"

definition publicClientConfig_redirectUri :: string where
  "publicClientConfig_redirectUri = ''http://localhost:3000/redirect''"

definition webApiScopes :: "string list" where
  "webApiScopes = [''https://fabrikamb2c.onmicrosoft.com/helloapi/demo.read'']"

definition webApiUri :: string where
  "webApiUri = ''https://fabrikamb2chello.azurewebsites.net/hello''"

definition SCOPES_oidc :: "string list" where
  "SCOPES_oidc = [''openid'', ''profile'']"

definition SCOPES_resource1 :: "string list" where
  "SCOPES_resource1 = webApiScopes"

definition APP_STATES_login :: string where
  "APP_STATES_login = ''login''"

definition APP_STATES_call_api :: string where
  "APP_STATES_call_api = ''call_api''"

definition APP_STATES_password_reset :: string where
  "APP_STATES_password_reset = ''password_reset''"

subsection \<open>State\<close>

text \<open>
  The value of a request's \<^verbatim>\<open>authority\<close> field: the authority string, or (line 203
  of the source) the whole policy object holding that string.
\<close>

datatype authority_value = AuthorityUrl string | PolicyObject string

text \<open>
  \<^verbatim>\<open>authCodeRequest\<close> and \<^verbatim>\<open>tokenRequest\<close> are plain JavaScript objects created
  with the field \<^verbatim>\<open>redirectUri\<close> only; the handlers add the other fields. A field that
  has not been assigned is \<^verbatim>\<open>undefined\<close>, written \<open>None\<close>.
\<close>

record request =
  redirectUri :: string
  authority :: "authority_value option"
  scopes :: "string list option"
  state :: "string option"
  codeChallenge :: "string option"
  codeChallengeMethod :: "string option"
  code :: "string option"
  codeVerifier :: "string option"

record pkce_codes =
  challengeMethod :: string
  verifier :: string
  challenge :: string

text \<open>
  The mutable state shared by all routes: the two request objects,
  \<^verbatim>\<open>app.locals.pkceCodes\<close> and \<^verbatim>\<open>app.locals.accessToken\<close> (\<open>None\<close> is
  \<^verbatim>\<open>null\<close>).
\<close>

record app_state =
  authCodeRequest :: request
  tokenRequest :: request
  locals_pkceCodes :: pkce_codes
  locals_accessToken :: "string option"

definition new_request :: request where
  "new_request =
     \<lparr>redirectUri = publicClientConfig_redirectUri, authority = None, scopes = None,
      state = None, codeChallenge = None, codeChallengeMethod = None, code = None,
      codeVerifier = None\<rparr>"

definition initial_state :: app_state where
  "initial_state =
     \<lparr>authCodeRequest = new_request,
      tokenRequest = new_request,
      locals_pkceCodes = \<lparr>challengeMethod = ''S256'', verifier = '''', challenge = ''''\<rparr>,
      locals_accessToken = None\<rparr>"

subsection \<open>The library and the network\<close>

text \<open>
  The result of \<^verbatim>\<open>pca.acquireTokenByCode\<close>. The handlers read
  \<^verbatim>\<open>response.accessToken\<close> and \<^verbatim>\<open>response.account.username\<close>; the granted
  scopes and the expiry time are further attributes of the library's result that the
  handlers never read.
\<close>

record auth_result =
  accessToken :: string
  account_username :: string
  result_scopes :: "string list"
  result_expiresOn :: int

text \<open>
  What the library (\<^verbatim>\<open>@azure/msal-node\<close>) and the module \<^verbatim>\<open>./api\<close> answer
  during one request; neither is part of the sources at hand. A promise that rejects is
  \<open>Inl\<close> with the error. \<open>callWebApi\<close> gives the response handed to the callback (as
  its JSON text), or \<open>None\<close> when the callback is never called. \<open>clock\<close> is the
  server's time, in seconds, when the request arrives; no handler reads it.
\<close>

record 'e env =
  clock :: int
  generatePkceCodes :: "'e + string \<times> string"
  getAuthCodeUrl :: "request \<Rightarrow> 'e + string"
  acquireTokenByCode :: "request \<Rightarrow> 'e + auth_result"
  callWebApi :: "string \<Rightarrow> string \<Rightarrow> string option"

datatype template_params =
    LoginParams bool
  | ApiUserParams bool string
  | ApiProfileParams bool string

datatype 'e body = ErrorBody 'e | TextBody string

text \<open>What a handler does, in order: calls to the library and the web API, and the response.\<close>

datatype 'e effect =
    Call_generatePkceCodes
  | Call_getAuthCodeUrl request
  | Call_acquireTokenByCode request
  | Call_callWebApi string string
  | Render string template_params
  | Redirect string
  | Send500 "'e body"
  | ConsoleLog 'e
  | UnhandledRejection 'e
  | UnhandledTypeError

subsection \<open>JavaScript helpers\<close>

text \<open>\<^verbatim>\<open>!v\<close> on a string or \<^verbatim>\<open>null\<close>/\<^verbatim>\<open>undefined\<close>: only a non-empty string is truthy.\<close>

definition js_truthy :: "string option \<Rightarrow> bool" where
  "js_truthy v = (case v of None \<Rightarrow> False | Some s \<Rightarrow> s \<noteq> [])"

text \<open>
  \<^verbatim>\<open>String.prototype.includes\<close>. The source applies it to
  \<^verbatim>\<open>JSON.stringify(req.query.error_description)\<close>; the quoting and escaping of
  \<^verbatim>\<open>JSON.stringify\<close> leave letters and digits as they are and add no upper-case
  letter, so the quoted text includes \<^verbatim>\<open>AADB2C90118\<close> exactly when the raw text does.
\<close>

fun js_includes :: "string \<Rightarrow> string \<Rightarrow> bool" where
  "js_includes [] pat = (pat = [])"
| "js_includes (c # cs) pat = (take (length pat) (c # cs) = pat \<or> js_includes cs pat)"

subsection \<open>Handlers\<close>

text \<open>
  \<^verbatim>\<open>getAuthCode\<close> runs in two steps. The call itself (lines 119-125 of the source)
  writes authority, scopes and state into the shared \<^verbatim>\<open>authCodeRequest\<close> and asks the
  library for PKCE codes. The callback of that promise (lines 127-139) runs later, on the
  state as it is by then: it stores the codes, copies challenge and method into
  \<^verbatim>\<open>authCodeRequest\<close> and hands that shared object, with whatever authority, scopes
  and state it holds at that time, to \<^verbatim>\<open>getAuthCodeUrl\<close>. When the promise rejects
  there is no handler for it.
\<close>

definition getAuthCode_request ::
  "string \<Rightarrow> string list \<Rightarrow> string \<Rightarrow> app_state \<Rightarrow> app_state" where
  "getAuthCode_request authority' scopes' state' s =
     s\<lparr>authCodeRequest := (authCodeRequest s)
         \<lparr>authority := Some (AuthorityUrl authority'),
          scopes := Some scopes',
          state := Some state'\<rparr>\<rparr>"

definition getAuthCode_callback :: "'e env \<Rightarrow> app_state \<Rightarrow> app_state \<times> 'e effect list" where
  "getAuthCode_callback env s1 =
     (case generatePkceCodes env of
        Inl e \<Rightarrow> (s1, [UnhandledRejection e])
      | Inr (verifier', challenge') \<Rightarrow>
          (let s2 = s1\<lparr>locals_pkceCodes := (locals_pkceCodes s1)
                        \<lparr>verifier := verifier', challenge := challenge'\<rparr>\<rparr>;
               s3 = s2\<lparr>authCodeRequest := (authCodeRequest s2)
                        \<lparr>codeChallenge := Some (challenge (locals_pkceCodes s2)),
                         codeChallengeMethod :=
                           Some (challengeMethod (locals_pkceCodes s2))\<rparr>\<rparr>
           in case getAuthCodeUrl env (authCodeRequest s3) of
                Inr response \<Rightarrow>
                  (s3, [Call_getAuthCodeUrl (authCodeRequest s3), Redirect response])
              | Inl error \<Rightarrow>
                  (s3, [Call_getAuthCodeUrl (authCodeRequest s3), ConsoleLog error])))"

text \<open>
  The call and its callback with no other request handled in between: the run of
  \<^verbatim>\<open>getAuthCode\<close> when requests are handled one after another. The call to the
  generator comes first, then what the callback does.
\<close>

definition getAuthCode ::
  "'e env \<Rightarrow> string \<Rightarrow> string list \<Rightarrow> string \<Rightarrow> app_state \<Rightarrow> app_state \<times> 'e effect list" where
  "getAuthCode env authority' scopes' state' s =
     (case getAuthCode_callback env (getAuthCode_request authority' scopes' state' s) of
        (s3, answered) \<Rightarrow> (s3, Call_generatePkceCodes # answered))"

text \<open>\<^verbatim>\<open>app.get("/")\<close>\<close>

definition root_handler :: "app_state \<Rightarrow> app_state \<times> 'e effect list" where
  "root_handler s = (s, [Render ''login'' (LoginParams True)])"

text \<open>\<^verbatim>\<open>app.get("/login")\<close>\<close>

definition login_handler :: "'e env \<Rightarrow> policies \<Rightarrow> app_state \<Rightarrow> app_state \<times> 'e effect list" where
  "login_handler env pol s =
     (if state (authCodeRequest s) = Some APP_STATES_password_reset
      then getAuthCode env (resetPassword pol) SCOPES_oidc APP_STATES_password_reset s
      else getAuthCode env (signUpSignIn pol) SCOPES_oidc APP_STATES_login s)"

text \<open>\<^verbatim>\<open>app.get("/profile")\<close>\<close>

definition profile_handler :: "'e env \<Rightarrow> policies \<Rightarrow> app_state \<Rightarrow> app_state \<times> 'e effect list" where
  "profile_handler env pol s = getAuthCode env (editProfile pol) SCOPES_oidc APP_STATES_login s"

text \<open>\<^verbatim>\<open>app.get("/api")\<close>\<close>

definition api_handler :: "'e env \<Rightarrow> policies \<Rightarrow> app_state \<Rightarrow> app_state \<times> 'e effect list" where
  "api_handler env pol s =
     (if \<not> js_truthy (locals_accessToken s)
      then getAuthCode env (signUpSignIn pol) SCOPES_resource1 APP_STATES_call_api s
      else (case locals_accessToken s of
              None \<Rightarrow> (s, [])
            | Some token \<Rightarrow>
                (s, Call_callWebApi webApiUri token #
                    (case callWebApi env webApiUri token of
                       None \<Rightarrow> []
                     | Some response \<Rightarrow> [Render ''api'' (ApiProfileParams False response)]))))"

text \<open>
  \<^verbatim>\<open>app.get("/redirect")\<close>. The query is \<^verbatim>\<open>req.query\<close>, a map from parameter
  names to strings.
\<close>

definition redirect_handler ::
  "'e env \<Rightarrow> policies \<Rightarrow> (string \<rightharpoonup> string) \<Rightarrow> app_state \<Rightarrow> app_state \<times> 'e effect list" where
  "redirect_handler env pol query s =
     (if query ''state'' = Some APP_STATES_login then
        (let s1 = s\<lparr>tokenRequest := (tokenRequest s)
                     \<lparr>scopes := Some SCOPES_oidc,
                      code := query ''code'',
                      codeVerifier := Some (verifier (locals_pkceCodes s))\<rparr>\<rparr>
         in case acquireTokenByCode env (tokenRequest s1) of
              Inr response \<Rightarrow>
                (s1, [Call_acquireTokenByCode (tokenRequest s1),
                      Render ''api'' (ApiUserParams False (account_username response))])
            | Inl error \<Rightarrow>
                (if js_truthy (query ''error'') then
                   (case query ''error_description'' of
                      None \<Rightarrow>
                        (s1, [Call_acquireTokenByCode (tokenRequest s1), UnhandledTypeError])
                    | Some description \<Rightarrow>
                        if js_includes description ''AADB2C90118'' then
                          (s1\<lparr>authCodeRequest := (authCodeRequest s1)
                                \<lparr>authority := Some (PolicyObject (resetPassword pol)),
                                 state := Some APP_STATES_password_reset\<rparr>\<rparr>,
                           [Call_acquireTokenByCode (tokenRequest s1), Redirect ''/login''])
                        else
                          (s1, [Call_acquireTokenByCode (tokenRequest s1),
                                Send500 (ErrorBody error)]))
                 else (s1, [Call_acquireTokenByCode (tokenRequest s1),
                            Send500 (ErrorBody error)])))
      else if query ''state'' = Some APP_STATES_call_api then
        (let s1 = s\<lparr>tokenRequest := (tokenRequest s)
                     \<lparr>authority := Some (AuthorityUrl (signUpSignIn pol)),
                      scopes := Some SCOPES_resource1,
                      code := query ''code'',
                      codeVerifier := Some (verifier (locals_pkceCodes s))\<rparr>\<rparr>
         in case acquireTokenByCode env (tokenRequest s1) of
              Inr response \<Rightarrow>
                (s1\<lparr>locals_accessToken := Some (accessToken response)\<rparr>,
                 Call_acquireTokenByCode (tokenRequest s1) #
                 Call_callWebApi webApiUri (accessToken response) #
                 (case callWebApi env webApiUri (accessToken response) of
                    None \<Rightarrow> []
                  | Some response' \<Rightarrow> [Render ''api'' (ApiProfileParams False response')]))
            | Inl error \<Rightarrow>
                (s1, [Call_acquireTokenByCode (tokenRequest s1), ConsoleLog error,
                      Send500 (ErrorBody error)]))
      else if query ''state'' = Some APP_STATES_password_reset then
        (s\<lparr>authCodeRequest := (authCodeRequest s)\<lparr>state := Some APP_STATES_login\<rparr>\<rparr>,
         [Redirect ''/login''])
      else (s, [Send500 (TextBody ''Unknown'')]))"

text \<open>
  One request to the server, and a sequence of requests each with its own answers, handled
  one after another: in \<open>handle\<close> and \<open>run\<close> a request is handled to its end,
  callbacks of its promises included, before the next one starts. Requests whose
  \<^verbatim>\<open>getAuthCode\<close> calls overlap are runs of \<open>getAuthCode_request\<close> and
  \<open>getAuthCode_callback\<close> in the order in which they happen.
\<close>

datatype route = Root | Login | Profile | Api | RedirectRoute "string \<rightharpoonup> string"

fun handle :: "policies \<Rightarrow> 'e env \<times> route \<Rightarrow> app_state \<Rightarrow> app_state \<times> 'e effect list" where
  "handle pol (env, Root) s = root_handler s"
| "handle pol (env, Login) s = login_handler env pol s"
| "handle pol (env, Profile) s = profile_handler env pol s"
| "handle pol (env, Api) s = api_handler env pol s"
| "handle pol (env, RedirectRoute query) s = redirect_handler env pol query s"

fun run :: "policies \<Rightarrow> ('e env \<times> route) list \<Rightarrow> app_state \<Rightarrow> app_state" where
  "run pol [] s = s"
| "run pol (r # rs) s = run pol rs (fst (handle pol r s))"


section \<open>Notions used to state the properties\<close>

text \<open>
  The calls a handler makes to the authentication library: each may reach the authority's
  endpoints over the network. The call to the protected web API is not one of them.
\<close>

definition is_library_call :: "'e effect \<Rightarrow> bool" where
  "is_library_call x =
     (case x of
        Call_generatePkceCodes \<Rightarrow> True
      | Call_getAuthCodeUrl _ \<Rightarrow> True
      | Call_acquireTokenByCode _ \<Rightarrow> True
      | _ \<Rightarrow> False)"

text \<open>Modelled from the spec: the default skew of 300 seconds (section 3).\<close>

definition default_skew :: int where
  "default_skew = 300"

text \<open>
  Modelled from the spec: the skew rule (section 3): a token is treated as expired from
  \<open>skew\<close> seconds before its \<open>expiresOn\<close>.
\<close>

definition within_skew_of_expiry :: "int \<Rightarrow> int \<Rightarrow> int \<Rightarrow> bool" where
  "within_skew_of_expiry skew now expires = (expires - skew \<le> now)"

section \<open>The token engine described by the specification\<close>

text \<open>
  The sample delegates PKCE generation, the code exchange with its token validation, and
  the credential cache to the library, whose code is not among the sources at hand. The
  definitions of this section follow the specification's description of these parts.
\<close>

text \<open>Modelled from the spec: the error kinds of section 7.\<close>

datatype auth_error =
    AuthorityDiscoveryError
  | CryptoUnavailable
  | StateMismatchError
  | AuthorizationError string string
  | NonceMismatchError
  | TokenExchangeError
  | InvalidSignature
  | TokenExpired
  | IssuerMismatch
  | AudienceMismatch
  | NoCredentialsError
  | InteractionRequiredError
  | TransientServerError

subsection \<open>CryptoCapability and PkceGenerator\<close>

text \<open>Modelled from the spec: the bytes that CryptoCapability produces and hashes (section 6).\<close>

type_synonym byte = "8 word"

text \<open>
  Modelled from the spec: CryptoCapability (section 6), an external collaborator whose
  primitives the engine consumes and never implements. \<open>None\<close> is the capability that
  cannot be reached. The arguments of \<open>verifySignature\<close> are the algorithm, the key, the
  signed data and the signature.
\<close>

record crypto =
  randomBytes :: "nat \<Rightarrow> byte list option"
  sha256 :: "byte list \<Rightarrow> byte list option"
  verifySignature :: "string \<Rightarrow> string \<Rightarrow> string \<Rightarrow> string \<Rightarrow> bool"

text \<open>
  Modelled from the spec: base64url encoding with no padding (sections 3 and 4.1), that
  is the URL-safe alphabet of RFC 4648 with the trailing \<open>=\<close> characters left out.
\<close>

definition base64url_alphabet :: string where
  "base64url_alphabet = ''ABCDEFGHIJKLMNOPQRSTUVWXYZabcdefghijklmnopqrstuvwxyz0123456789-_''"

text \<open>Modelled from the spec: the character of a six-bit value in the base64url
  alphabet.\<close>

definition base64url_char :: "nat \<Rightarrow> char" where
  "base64url_char i = base64url_alphabet ! (i mod 64)"

text \<open>Modelled from the spec: base64UrlEncode of CryptoCapability (section 6), with no
  padding: three bytes give four characters, a last single byte two, a last pair three.\<close>

fun base64UrlEncode :: "byte list \<Rightarrow> string" where
  "base64UrlEncode [] = []"
| "base64UrlEncode [a] =
     [base64url_char (unat a div 4), base64url_char ((unat a mod 4) * 16)]"
| "base64UrlEncode [a, b] =
     [base64url_char (unat a div 4),
      base64url_char ((unat a mod 4) * 16 + unat b div 16),
      base64url_char ((unat b mod 16) * 4)]"
| "base64UrlEncode (a # b # c # rest) =
     base64url_char (unat a div 4) #
     base64url_char ((unat a mod 4) * 16 + unat b div 16) #
     base64url_char ((unat b mod 16) * 4 + unat c div 64) #
     base64url_char (unat c mod 64) #
     base64UrlEncode rest"

text \<open>Modelled from the spec: the bytes of the verifier, an ASCII string, as the hash
  function receives them (section 4.1).\<close>

definition bytes_of_string :: "string \<Rightarrow> byte list" where
  "bytes_of_string s = map (\<lambda>c. of_nat (of_char c)) s"

text \<open>
  Modelled from the spec: the unreserved characters a verifier is made of (section 3):
  letters, digits, and \<open>-\<close>, \<open>.\<close>, \<open>_\<close>, \<open>~\<close>.
\<close>

definition unreserved :: "char \<Rightarrow> bool" where
  "unreserved c =
     (c \<in> set ''ABCDEFGHIJKLMNOPQRSTUVWXYZabcdefghijklmnopqrstuvwxyz0123456789-._~'')"

text \<open>
  Modelled from the spec: PkceGenerator.generate (section 4.1), the library's
  \<^verbatim>\<open>generatePkceCodes\<close>. The verifier is the encoding of 32 bytes from the
  random-byte source, the stated minimum; the challenge is the unpadded base64url encoding
  of the SHA-256 hash of the verifier; the method is fixed. It fails with
  \<open>CryptoUnavailable\<close> when the capability cannot be reached.
\<close>

definition generate :: "crypto \<Rightarrow> auth_error + pkce_codes" where
  "generate c =
     (case randomBytes c 32 of
        None \<Rightarrow> Inl CryptoUnavailable
      | Some bytes \<Rightarrow>
          (let v = base64UrlEncode bytes
           in case sha256 c (bytes_of_string v) of
                None \<Rightarrow> Inl CryptoUnavailable
              | Some digest \<Rightarrow>
                  Inr \<lparr>challengeMethod = ''S256'', verifier = v,
                       challenge = base64UrlEncode digest\<rparr>))"

text \<open>
  Modelled from the spec: the answer of \<^verbatim>\<open>cryptoProvider.generatePkceCodes()\<close>, the
  generator as the sample calls it; the handler takes the verifier and the challenge of
  the generated codes.
\<close>

definition cryptoProvider_generatePkceCodes :: "crypto \<Rightarrow> auth_error + string \<times> string" where
  "cryptoProvider_generatePkceCodes c =
     (case generate c of
        Inl e \<Rightarrow> Inl e
      | Inr codes \<Rightarrow> Inr (verifier codes, challenge codes))"

subsection \<open>TokenValidator\<close>

text \<open>
  Modelled from the spec: an ID token as TokenValidator sees it after splitting it into
  header, payload and signature and decoding header and payload (section 4.4). The claims
  \<open>oid\<close>, \<open>tid\<close> and \<open>preferred_username\<close> stand for the local user id, the tenant id and
  the user name from which the Account entity is built.
\<close>

record id_token_claims =
  iss :: string
  aud :: "string list"
  exp_time :: int
  nonce :: "string option"
  oid :: string
  tid :: string
  preferred_username :: string

text \<open>Modelled from the spec: the ID token with its decoded header fields, the data
  the signature covers, the signature and the claims (section 4.4).\<close>

record id_token =
  raw :: string
  alg :: string
  kid :: string
  signed_data :: string
  signature :: string
  claims :: id_token_claims

text \<open>Modelled from the spec: the values an ID token is validated against (section
  4.4); the nonce is checked only when one is expected.\<close>

record expected =
  expected_issuer :: string
  expected_audience :: string
  expected_nonce :: "string option"

text \<open>
  Modelled from the spec: TokenValidator.validateIdToken (section 4.4). \<open>signing_key\<close>
  is the key lookup by \<open>kid\<close> in the key set of the authority; a token whose key is not
  found has no valid signature. The checks run in the order of the specification, and the
  claims are returned only when all of them pass.
\<close>

definition validateIdToken ::
  "crypto \<Rightarrow> (string \<Rightarrow> string option) \<Rightarrow> int \<Rightarrow> int \<Rightarrow> id_token \<Rightarrow> expected
     \<Rightarrow> auth_error + id_token_claims" where
  "validateIdToken c signing_key now skew token ex =
     (if \<not> (case signing_key (kid token) of
               None \<Rightarrow> False
             | Some key \<Rightarrow>
                 verifySignature c (alg token) key (signed_data token) (signature token))
      then Inl InvalidSignature
      else if exp_time (claims token) + skew < now then Inl TokenExpired
      else if iss (claims token) \<noteq> expected_issuer ex then Inl IssuerMismatch
      else if expected_audience ex \<notin> set (aud (claims token)) then Inl AudienceMismatch
      else (case expected_nonce ex of
              None \<Rightarrow> Inr (claims token)
            | Some n \<Rightarrow>
                if nonce (claims token) = Some n then Inr (claims token)
                else Inl NonceMismatchError))"

subsection \<open>CredentialCache\<close>

text \<open>
  Modelled from the spec: the entities of section 3. Accounts and credentials share the
  fields \<open>environment\<close> and \<open>homeAccountId\<close>; an access token adds its attributes to
  those of an ID token. The \<open>target\<close> is the scope set.
\<close>

record entity_id =
  environment :: string
  homeAccountId :: string

text \<open>Modelled from the spec: the Account entity (section 3).\<close>

record account = entity_id +
  username :: string
  tenantId :: string
  localAccountId :: string

text \<open>Modelled from the spec: the fields every credential has (section 3).\<close>

record credential = entity_id +
  clientId :: string
  secret :: string

text \<open>Modelled from the spec: the IdTokenCredential entity (section 3).\<close>

record id_token_credential = credential +
  realm :: string

text \<open>Modelled from the spec: the AccessTokenCredential entity (section 3).\<close>

record access_token_credential = id_token_credential +
  target :: "string list"
  cachedAt :: int
  expiresOn :: int
  extendedExpiresOn :: int
  tokenType :: string
  refreshOn :: "int option"

text \<open>Modelled from the spec: the RefreshTokenCredential entity (section 3); it has
  no expiry.\<close>

record refresh_token_credential = credential +
  familyId :: "string option"

text \<open>Modelled from the spec: the argument of setCredential (section 4.5), a
  credential of one of the three types.\<close>

datatype credential_entity =
    IdTokenEntity id_token_credential
  | AccessTokenEntity access_token_credential
  | RefreshTokenEntity refresh_token_credential

text \<open>Modelled from the spec: the cache, grouped into sections by entity type
  (section 6). Each section lists its entities, the latest written first.\<close>

record credential_cache =
  accounts :: "account list"
  idTokens :: "id_token_credential list"
  accessTokens :: "access_token_credential list"
  refreshTokens :: "refresh_token_credential list"

text \<open>
  Modelled from the spec: the deterministic keys of section 3. The credential type is
  given by the section of the cache an entity is stored in.
\<close>

definition account_key :: "account \<Rightarrow> string \<times> string" where
  "account_key a = (homeAccountId a, environment a)"

text \<open>Modelled from the spec: the key of an ID token: account, client and realm.\<close>

definition idToken_key :: "id_token_credential \<Rightarrow> string \<times> string \<times> string \<times> string" where
  "idToken_key c = (homeAccountId c, environment c, clientId c, realm c)"

text \<open>Modelled from the spec: the key of an access token: account, client, realm
  and target scope set.\<close>

definition accessToken_key ::
  "access_token_credential \<Rightarrow> string \<times> string \<times> string \<times> string \<times> string set" where
  "accessToken_key c = (homeAccountId c, environment c, clientId c, realm c, set (target c))"

text \<open>Modelled from the spec: the key of a refresh token: account and client.\<close>

definition refreshToken_key :: "refresh_token_credential \<Rightarrow> string \<times> string \<times> string" where
  "refreshToken_key c = (homeAccountId c, environment c, clientId c)"

text \<open>
  Modelled from the spec: a write is last-writer-wins on the key, and no second entry
  for a key is ever kept (section 4.5).
\<close>

definition put :: "('a \<Rightarrow> 'k) \<Rightarrow> 'a \<Rightarrow> 'a list \<Rightarrow> 'a list" where
  "put key x xs = x # filter (\<lambda>y. key y \<noteq> key x) xs"

text \<open>Modelled from the spec: setAccount (section 4.5).\<close>

definition setAccount :: "account \<Rightarrow> credential_cache \<Rightarrow> credential_cache" where
  "setAccount a cache = cache\<lparr>accounts := put account_key a (accounts cache)\<rparr>"

text \<open>Modelled from the spec: setCredential(entity) (section 4.5).\<close>

definition setCredential :: "credential_entity \<Rightarrow> credential_cache \<Rightarrow> credential_cache" where
  "setCredential entity cache =
     (case entity of
        IdTokenEntity c \<Rightarrow> cache\<lparr>idTokens := put idToken_key c (idTokens cache)\<rparr>
      | AccessTokenEntity c \<Rightarrow>
          cache\<lparr>accessTokens := put accessToken_key c (accessTokens cache)\<rparr>
      | RefreshTokenEntity c \<Rightarrow>
          cache\<lparr>refreshTokens := put refreshToken_key c (refreshTokens cache)\<rparr>)"

text \<open>Modelled from the spec: getRefreshToken(account, clientId) of section 4.5.\<close>

definition getRefreshToken ::
  "credential_cache \<Rightarrow> account \<Rightarrow> string \<Rightarrow> refresh_token_credential option" where
  "getRefreshToken cache a client =
     find (\<lambda>c. refreshToken_key c = (homeAccountId a, environment a, client))
       (refreshTokens cache)"

text \<open>
  Modelled from the spec: the removal of a refresh token from the cache that section 4.6
  asks for when the provider rejects it.
\<close>

definition removeRefreshToken ::
  "refresh_token_credential \<Rightarrow> credential_cache \<Rightarrow> credential_cache" where
  "removeRefreshToken rt cache =
     cache\<lparr>refreshTokens :=
              filter (\<lambda>c. refreshToken_key c \<noteq> refreshToken_key rt) (refreshTokens cache)\<rparr>"

text \<open>
  Modelled from the spec: the candidate with the latest \<open>cachedAt\<close> wins (section 4.5).
\<close>

fun latest :: "access_token_credential list \<Rightarrow> access_token_credential option" where
  "latest [] = None"
| "latest (c # cs) =
     (case latest cs of
        None \<Rightarrow> Some c
      | Some d \<Rightarrow> if cachedAt c < cachedAt d then Some d else Some c)"

text \<open>
  Modelled from the spec: getAccessToken(account, clientId, scopes, realm) with the
  matching rule of section 4.5: a candidate of the account with identical client id and
  realm, whose target is a superset of the requested scopes, and which is not expired
  under the skew rule. No candidate is a cache miss, \<open>None\<close>.
\<close>

definition getAccessToken ::
  "credential_cache \<Rightarrow> int \<Rightarrow> int \<Rightarrow> account \<Rightarrow> string \<Rightarrow> string list \<Rightarrow> string
     \<Rightarrow> access_token_credential option" where
  "getAccessToken cache now skew a client requested tenant =
     latest (filter
       (\<lambda>c. homeAccountId c = homeAccountId a \<and> environment c = environment a
            \<and> clientId c = client \<and> realm c = tenant
            \<and> set requested \<subseteq> set (target c)
            \<and> \<not> within_skew_of_expiry skew now (expiresOn c))
       (accessTokens cache))"

subsection \<open>The token endpoint\<close>

text \<open>
  Modelled from the spec: the authority metadata of section 3, the request posted to the
  token endpoint and the parsed body of its answer (sections 4.3 and 4.6), and the client
  settings an authorization request requires.
\<close>

record authority_metadata =
  metadata_environment :: string
  authorization_endpoint :: string
  token_endpoint :: string
  issuer :: string
  jwks_uri :: string

text \<open>Modelled from the spec: the client settings an authorization request requires
  (section 4.3) and the configured skew (section 3).\<close>

record client_config =
  config_clientId :: string
  config_redirectUri :: string
  config_skew :: int

text \<open>Modelled from the spec: the body posted to the token endpoint (sections 4.3
  and 4.6).\<close>

record token_request =
  grant_type :: string
  request_code :: "string option"
  code_verifier :: "string option"
  request_refresh_token :: "string option"
  request_redirect_uri :: string
  request_client_id :: string
  request_scopes :: "string list"

text \<open>Modelled from the spec: the parsed body of a successful answer of the token
  endpoint (section 4.3).\<close>

record token_response =
  access_token :: string
  id_token :: id_token
  refresh_token :: "string option"
  expires_in :: int
  scope :: "string list"

text \<open>
  Modelled from the spec: the record that buildAuthorizationUrl stores under the state
  (section 4.3).
\<close>

record pending_record =
  pending_state :: string
  pending_pkceCodes :: pkce_codes
  pending_nonce :: string
  pending_scopes :: "string list"
  pending_authority :: string

text \<open>
  Modelled from the spec: the entities written after a validated token response. The
  home account id is the composite of the local user id and the tenant id; the token is
  cached at the time of the response and expires \<open>expires_in\<close> seconds later.
\<close>

definition account_of :: "authority_metadata \<Rightarrow> id_token_claims \<Rightarrow> account" where
  "account_of md cl =
     \<lparr>environment = metadata_environment md,
      homeAccountId = oid cl @ ''.'' @ tid cl,
      username = preferred_username cl,
      tenantId = tid cl,
      localAccountId = oid cl\<rparr>"

text \<open>Modelled from the spec: the IdTokenCredential of a validated response.\<close>

definition idToken_of ::
  "authority_metadata \<Rightarrow> client_config \<Rightarrow> id_token_claims \<Rightarrow> token_response
     \<Rightarrow> id_token_credential" where
  "idToken_of md cfg cl body =
     \<lparr>environment = metadata_environment md,
      homeAccountId = oid cl @ ''.'' @ tid cl,
      clientId = config_clientId cfg,
      secret = raw (id_token body),
      realm = tid cl\<rparr>"

text \<open>Modelled from the spec: the AccessTokenCredential of a validated response.\<close>

definition accessToken_of ::
  "authority_metadata \<Rightarrow> client_config \<Rightarrow> int \<Rightarrow> id_token_claims \<Rightarrow> token_response
     \<Rightarrow> access_token_credential" where
  "accessToken_of md cfg now cl body =
     \<lparr>environment = metadata_environment md,
      homeAccountId = oid cl @ ''.'' @ tid cl,
      clientId = config_clientId cfg,
      secret = access_token body,
      realm = tid cl,
      target = scope body,
      cachedAt = now,
      expiresOn = now + expires_in body,
      extendedExpiresOn = now + expires_in body,
      tokenType = ''Bearer'',
      refreshOn = None\<rparr>"

text \<open>Modelled from the spec: the RefreshTokenCredential of a validated response.\<close>

definition refreshToken_of ::
  "authority_metadata \<Rightarrow> client_config \<Rightarrow> id_token_claims \<Rightarrow> string
     \<Rightarrow> refresh_token_credential" where
  "refreshToken_of md cfg cl s =
     \<lparr>environment = metadata_environment md,
      homeAccountId = oid cl @ ''.'' @ tid cl,
      clientId = config_clientId cfg,
      secret = s,
      familyId = None\<rparr>"

text \<open>Modelled from the spec: the refresh token of a response is written when the
  response has one (sections 4.3 and 4.6).\<close>

definition write_refresh_token ::
  "authority_metadata \<Rightarrow> client_config \<Rightarrow> id_token_claims \<Rightarrow> string option
     \<Rightarrow> credential_cache \<Rightarrow> credential_cache" where
  "write_refresh_token md cfg cl rt cache =
     (case rt of
        None \<Rightarrow> cache
      | Some s \<Rightarrow> setCredential (RefreshTokenEntity (refreshToken_of md cfg cl s)) cache)"

subsection \<open>AuthCodeFlowEngine: the code exchange\<close>

text \<open>
  Modelled from the spec: the request that exchangeCodeForTokens posts (section 4.3):
  the grant type, the original PKCE verifier, the redirect URI, the client id and the code.
\<close>

definition code_exchange_request ::
  "client_config \<Rightarrow> string \<Rightarrow> pending_record \<Rightarrow> token_request" where
  "code_exchange_request cfg code' pending =
     \<lparr>grant_type = ''authorization_code'',
      request_code = Some code',
      code_verifier = Some (verifier (pending_pkceCodes pending)),
      request_refresh_token = None,
      request_redirect_uri = config_redirectUri cfg,
      request_client_id = config_clientId cfg,
      request_scopes = pending_scopes pending\<rparr>"

text \<open>
  Modelled from the spec: what the ID token of a response is validated against: the
  issuer of the authority, the client id as audience, and the nonce when one is expected.
\<close>

definition id_token_expectation ::
  "authority_metadata \<Rightarrow> client_config \<Rightarrow> string option \<Rightarrow> expected" where
  "id_token_expectation md cfg n =
     \<lparr>expected_issuer = issuer md,
      expected_audience = config_clientId cfg,
      expected_nonce = n\<rparr>"

text \<open>
  Modelled from the spec: exchangeCodeForTokens(code, pendingRecord) of section 4.3.
  \<open>httpPost\<close> is the transport: it answers a request to the token endpoint with a status
  and the parsed body. A status outside 2xx fails with \<open>TokenExchangeError\<close>. The ID token
  is validated with the nonce of the pending record, and only then are the Account, the
  IdToken, the AccessToken and, when present, the RefreshToken written to the cache.
\<close>

definition exchangeCodeForTokens ::
  "crypto \<Rightarrow> (string \<Rightarrow> string option) \<Rightarrow> (string \<Rightarrow> token_request \<Rightarrow> nat \<times> token_response)
     \<Rightarrow> int \<Rightarrow> client_config \<Rightarrow> authority_metadata \<Rightarrow> string \<Rightarrow> pending_record
     \<Rightarrow> credential_cache \<Rightarrow> (auth_error + access_token_credential) \<times> credential_cache" where
  "exchangeCodeForTokens c signing_key httpPost now cfg md code' pending cache =
     (case httpPost (token_endpoint md) (code_exchange_request cfg code' pending) of
        (status, body) \<Rightarrow>
          if status < 200 \<or> 300 \<le> status then (Inl TokenExchangeError, cache)
          else
            (case validateIdToken c signing_key now (config_skew cfg) (id_token body)
                    (id_token_expectation md cfg (Some (pending_nonce pending))) of
               Inl e \<Rightarrow> (Inl e, cache)
             | Inr cl \<Rightarrow>
                 (Inr (accessToken_of md cfg now cl body),
                  write_refresh_token md cfg cl (refresh_token body)
                    (setCredential (AccessTokenEntity (accessToken_of md cfg now cl body))
                      (setCredential (IdTokenEntity (idToken_of md cfg cl body))
                        (setAccount (account_of md cl) cache))))))"

subsection \<open>SilentFlowEngine\<close>

text \<open>
  Modelled from the spec: the three outcomes of a refresh-token redemption at the token
  endpoint (section 4.6): a token response, a provider error saying that the refresh token
  itself is invalid, expired or revoked (with the provider's error code, such as
  \<open>invalid_grant\<close>), or a transient network or server error.
\<close>

datatype redemption =
    Redeemed token_response
  | RefreshTokenRejected string
  | TransientFailure

text \<open>Modelled from the spec: the redemption request, with grant type \<open>refresh_token\<close>.\<close>

definition refresh_request ::
  "client_config \<Rightarrow> refresh_token_credential \<Rightarrow> string list \<Rightarrow> token_request" where
  "refresh_request cfg rt requested =
     \<lparr>grant_type = ''refresh_token'',
      request_code = None,
      code_verifier = None,
      request_refresh_token = Some (secret rt),
      request_redirect_uri = config_redirectUri cfg,
      request_client_id = config_clientId cfg,
      request_scopes = requested\<rparr>"

text \<open>
  Modelled from the spec: acquireTokenSilent(account, scopes, authority) of section 4.6.
  The result comes with the cache after the call and the number of calls made to the
  token endpoint.
\<close>

definition acquireTokenSilent ::
  "crypto \<Rightarrow> (string \<Rightarrow> string option) \<Rightarrow> (string \<Rightarrow> token_request \<Rightarrow> redemption)
     \<Rightarrow> int \<Rightarrow> client_config \<Rightarrow> authority_metadata \<Rightarrow> account \<Rightarrow> string list
     \<Rightarrow> credential_cache
     \<Rightarrow> (auth_error + access_token_credential) \<times> credential_cache \<times> nat" where
  "acquireTokenSilent c signing_key redeem now cfg md a requested cache =
     (case getAccessToken cache now (config_skew cfg) a (config_clientId cfg) requested
             (tenantId a) of
        Some hit \<Rightarrow> (Inr hit, cache, 0)
      | None \<Rightarrow>
          (case getRefreshToken cache a (config_clientId cfg) of
             None \<Rightarrow> (Inl NoCredentialsError, cache, 0)
           | Some rt \<Rightarrow>
               (case redeem (token_endpoint md) (refresh_request cfg rt requested) of
                  RefreshTokenRejected reason \<Rightarrow>
                    (Inl InteractionRequiredError, removeRefreshToken rt cache, 1)
                | TransientFailure \<Rightarrow> (Inl TransientServerError, cache, 1)
                | Redeemed body \<Rightarrow>
                    (case validateIdToken c signing_key now (config_skew cfg) (id_token body)
                            (id_token_expectation md cfg None) of
                       Inl e \<Rightarrow> (Inl e, cache, 1)
                     | Inr cl \<Rightarrow>
                         (Inr (accessToken_of md cfg now cl body),
                          write_refresh_token md cfg cl (refresh_token body)
                            (setCredential
                               (AccessTokenEntity (accessToken_of md cfg now cl body)) cache),
                          1)))))"

section \<open>Example values\<close>

text \<open>
  Concrete policies, library answers and queries for the example runs below. The library
  answers every request of a run in the same way.
\<close>

definition example_policies :: policies where
  "example_policies =
     \<lparr>signUpSignIn = ''https://login.example/b2c_1_susi'',
      resetPassword = ''https://login.example/b2c_1_reset'',
      editProfile = ''https://login.example/b2c_1_edit_profile'',
      authorityDomain = ''login.example''\<rparr>"

definition example_result :: "string list \<Rightarrow> int \<Rightarrow> auth_result" where
  "example_result granted expires =
     \<lparr>accessToken = ''tok'', account_username = ''user@example'',
      result_scopes = granted, result_expiresOn = expires\<rparr>"

definition example_env :: "int \<Rightarrow> string \<times> string \<Rightarrow> auth_result \<Rightarrow> auth_error env" where
  "example_env now codes result =
     \<lparr>clock = now,
      generatePkceCodes = Inr codes,
      getAuthCodeUrl = (\<lambda>request. Inr ''https://login.example/authorize''),
      acquireTokenByCode = (\<lambda>request. Inr result),
      callWebApi = (\<lambda>uri token. Some ''{}'')\<rparr>"

definition call_api_query :: "string \<rightharpoonup> string" where
  "call_api_query = [''state'' \<mapsto> ''call_api'', ''code'' \<mapsto> ''c0'']"

definition login_query :: "string \<Rightarrow> string \<rightharpoonup> string" where
  "login_query c = [''state'' \<mapsto> ''login'', ''code'' \<mapsto> c]"

text \<open>
  A crypto capability for the example runs: its byte source counts up from zero, its hash
  function answers with 32 bytes, and every signature is the key followed by the data.
\<close>

definition example_crypto :: crypto where
  "example_crypto =
     \<lparr>randomBytes = (\<lambda>n. Some (map of_nat [0..<n])),
      sha256 = (\<lambda>bytes. Some (replicate 32 (of_nat (length bytes)))),
      verifySignature = (\<lambda>a key d sg. sg = key @ d)\<rparr>"

text \<open>
  An authority, a client, a pending authorization record with the nonce \<open>n1\<close>, and a
  token response whose ID token is correctly signed and carries the given nonce.
\<close>

definition example_metadata :: authority_metadata where
  "example_metadata =
     \<lparr>metadata_environment = ''login.example'',
      authorization_endpoint = ''https://login.example/authorize'',
      token_endpoint = ''https://login.example/token'',
      issuer = ''https://login.example/t1'',
      jwks_uri = ''https://login.example/keys''\<rparr>"

definition example_config :: client_config where
  "example_config =
     \<lparr>config_clientId = ''C1'', config_redirectUri = ''http://localhost:3000/redirect'',
      config_skew = 300\<rparr>"

definition example_signing_key :: "string \<Rightarrow> string option" where
  "example_signing_key k = (if k = ''k1'' then Some ''key1'' else None)"

definition example_id_token :: "string \<Rightarrow> id_token" where
  "example_id_token n =
     \<lparr>raw = ''header.payload.signature'', alg = ''RS256'', kid = ''k1'',
      signed_data = ''header.payload'', signature = ''key1header.payload'',
      claims = \<lparr>iss = ''https://login.example/t1'', aud = [''C1''], exp_time = 4600,
                 nonce = Some n, oid = ''u1'', tid = ''T1'',
                 preferred_username = ''user@example''\<rparr>\<rparr>"

definition example_response :: "string \<Rightarrow> token_response" where
  "example_response n =
     \<lparr>access_token = ''at2'', id_token = example_id_token n, refresh_token = Some ''rt2'',
      expires_in = 3600, scope = [''read'']\<rparr>"

definition example_pending :: pending_record where
  "example_pending =
     \<lparr>pending_state = ''s1'',
      pending_pkceCodes = \<lparr>challengeMethod = ''S256'', verifier = ''v1'', challenge = ''c1''\<rparr>,
      pending_nonce = ''n1'', pending_scopes = [''read''],
      pending_authority = ''https://login.example/t1''\<rparr>"

text \<open>An account with one refresh token in the cache and no access token.\<close>

definition example_account :: account where
  "example_account =
     \<lparr>environment = ''login.example'', homeAccountId = ''u1.T1'',
      username = ''user@example'', tenantId = ''T1'', localAccountId = ''u1''\<rparr>"

definition example_refresh_token :: refresh_token_credential where
  "example_refresh_token =
     \<lparr>environment = ''login.example'', homeAccountId = ''u1.T1'', clientId = ''C1'',
      secret = ''rt1'', familyId = None\<rparr>"

definition example_cache :: credential_cache where
  "example_cache =
     \<lparr>accounts = [example_account], idTokens = [], accessTokens = [],
      refreshTokens = [example_refresh_token]\<rparr>"

text \<open>
  The same cache with an access token for the scope \<open>read\<close>, cached at time 0 and
  expiring at time 3600.
\<close>

definition example_access_token :: access_token_credential where
  "example_access_token =
     \<lparr>environment = ''login.example'', homeAccountId = ''u1.T1'', clientId = ''C1'',
      secret = ''at1'', realm = ''T1'', target = [''read''], cachedAt = 0, expiresOn = 3600,
      extendedExpiresOn = 3600, tokenType = ''Bearer'', refreshOn = None\<rparr>"

definition example_cache_with_token :: credential_cache where
  "example_cache_with_token = example_cache\<lparr>accessTokens := [example_access_token]\<rparr>"

text \<open>
  A second access token of the same account, client and realm, for the scopes \<open>read\<close>
  and \<open>write\<close>, cached later, at time 10, and expiring earlier, at time 1400; and the
  cache after it has been written as well.
\<close>

definition example_short_token :: access_token_credential where
  "example_short_token =
     \<lparr>environment = ''login.example'', homeAccountId = ''u1.T1'', clientId = ''C1'',
      secret = ''at0'', realm = ''T1'', target = [''read'', ''write''], cachedAt = 10,
      expiresOn = 1400, extendedExpiresOn = 1400, tokenType = ''Bearer'',
      refreshOn = None\<rparr>"

definition example_cache_two_tokens :: credential_cache where
  "example_cache_two_tokens =
     setCredential (AccessTokenEntity example_short_token) example_cache_with_token"

section \<open>Properties of JsonWebEncryption\<close>

lemma js_split_nonempty: "js_split sep s \<noteq> []"
  by (induction s) (auto split: list.splits)

lemma jwe_calls_prefix:
  "\<exists>k. 1 \<le> k \<and> k \<le> 5 \<and> fst (JsonWebEncryption decode parse rawJwe)
      = take k (map (js_index (js_split CHR ''.'' rawJwe)) [0, 1, 2, 3, 4])"
proof -
  let ?args = "map (js_index (js_split CHR ''.'' rawJwe)) [0, 1, 2, 3, 4]"
  let ?c = "fst (JsonWebEncryption decode parse rawJwe)"
  have "?c = take 1 ?args \<or> ?c = take 2 ?args \<or> ?c = take 3 ?args
        \<or> ?c = take 4 ?args \<or> ?c = take 5 ?args"
    by (simp add: JsonWebEncryption_def Let_def split: sum.splits)
  moreover have "(1::nat) \<le> 1 \<and> (1::nat) \<le> 5" "(1::nat) \<le> 2 \<and> (2::nat) \<le> 5"
    "(1::nat) \<le> 3 \<and> (3::nat) \<le> 5" "(1::nat) \<le> 4 \<and> (4::nat) \<le> 5" "(1::nat) \<le> 5 \<and> (5::nat) \<le> 5"
    by simp_all
  ultimately show ?thesis by blast
qed

lemma jwe_success_all_five:
  "snd (JsonWebEncryption decode parse rawJwe) = Inr j \<Longrightarrow>
     fst (JsonWebEncryption decode parse rawJwe)
       = map (js_index (js_split CHR ''.'' rawJwe)) [0, 1, 2, 3, 4]
     \<and> parseJweProtectedHeader decode parse (js_index (js_split CHR ''.'' rawJwe) 0) = Inr (header j)
     \<and> decode (js_index (js_split CHR ''.'' rawJwe) 1) = Inr (encryptedKey j)
     \<and> decode (js_index (js_split CHR ''.'' rawJwe) 2) = Inr (initializationVector j)
     \<and> decode (js_index (js_split CHR ''.'' rawJwe) 3) = Inr (ciphertext j)
     \<and> decode (js_index (js_split CHR ''.'' rawJwe) 4) = Inr (authenticationTag j)"
  by (auto simp: JsonWebEncryption_def Let_def split: sum.splits)

lemma jwe_error_origin:
  "snd (JsonWebEncryption decode parse rawJwe) = Inl e \<Longrightarrow>
     decode (last (fst (JsonWebEncryption decode parse rawJwe))) = Inl e
     \<or> (\<exists>d. decode (js_index (js_split CHR ''.'' rawJwe) 0) = Inr d \<and> parse d = Inl e)"
  by (auto simp: JsonWebEncryption_def parseJweProtectedHeader_def Let_def split: sum.splits)

lemma jwe_short_reaches_undefined:
  assumes short: "length (js_split CHR ''.'' rawJwe) < 5"
    and dec: "\<forall>s \<in> set (js_split CHR ''.'' rawJwe). \<exists>d. decode (Some s) = Inr d"
    and hdr: "\<forall>d. decode (js_index (js_split CHR ''.'' rawJwe) 0) = Inr d \<longrightarrow> (\<exists>h. parse d = Inr h)"
  shows "None \<in> set (fst (JsonWebEncryption decode parse rawJwe))"
proof -
  let ?segs = "js_split CHR ''.'' rawJwe"
  have ne: "?segs \<noteq> []" by (rule js_split_nonempty)
  have ok: "\<And>i. i < length ?segs \<Longrightarrow> \<exists>d. decode (js_index ?segs i) = Inr d"
    using dec by (simp add: js_index_def)
  obtain d0 where d0: "decode (js_index ?segs 0) = Inr d0" using ok[of 0] ne by auto
  then obtain h where h: "parse d0 = Inr h" using hdr by blast
  have p: "parseJweProtectedHeader decode parse (js_index ?segs 0) = Inr h"
    by (simp add: parseJweProtectedHeader_def d0 h)
  have n4: "js_index ?segs 4 = None" using short by (simp add: js_index_def)
  show ?thesis
  proof (cases "length ?segs = 1")
    case True
    then have "js_index ?segs 1 = None" by (simp add: js_index_def)
    then show ?thesis
      by (simp add: JsonWebEncryption_def Let_def p del: One_nat_def split: sum.splits)
  next
    case False
    then have "1 < length ?segs" using ne by (cases ?segs) auto
    then obtain d1 where d1: "decode (js_index ?segs 1) = Inr d1" using ok by blast
    show ?thesis
    proof (cases "length ?segs = 2")
      case True
      then have "js_index ?segs 2 = None" by (simp add: js_index_def)
      then show ?thesis
        by (simp add: JsonWebEncryption_def Let_def p d1 del: One_nat_def split: sum.splits)
    next
      case False
      then have "2 < length ?segs" using \<open>1 < length ?segs\<close> by simp
      then obtain d2 where d2: "decode (js_index ?segs 2) = Inr d2" using ok by blast
      show ?thesis
      proof (cases "length ?segs = 3")
        case True
        then have "js_index ?segs 3 = None" by (simp add: js_index_def)
        then show ?thesis
          by (simp add: JsonWebEncryption_def Let_def p d1 d2 del: One_nat_def split: sum.splits)
      next
        case False
        then have "3 < length ?segs" using \<open>2 < length ?segs\<close> by simp
        then obtain d3 where d3: "decode (js_index ?segs 3) = Inr d3" using ok by blast
        show ?thesis using n4
          by (simp add: JsonWebEncryption_def Let_def p d1 d2 d3 del: One_nat_def split: sum.splits)
      qed
    qed
  qed
qed

lemma parseJweProtectedHeader_cases:
  "parseJweProtectedHeader decode parse x
     = (case decode x of Inl e \<Rightarrow> Inl e | Inr d \<Rightarrow> parse d)"
  by (simp add: parseJweProtectedHeader_def split: sum.splits)

lemma jwe_stops_at_header:
  "parseJweProtectedHeader decode parse (js_index (js_split CHR ''.'' rawJwe) 0) = Inl e \<Longrightarrow>
   JsonWebEncryption decode parse rawJwe
     = (take 1 (map (js_index (js_split CHR ''.'' rawJwe)) [0, 1, 2, 3, 4]), Inl e)"
  by (simp add: JsonWebEncryption_def Let_def)

lemma jwe_stops_at_1:
  "parseJweProtectedHeader decode parse (js_index (js_split CHR ''.'' rawJwe) 0) = Inr h \<Longrightarrow>
   decode (js_index (js_split CHR ''.'' rawJwe) 1) = Inl e \<Longrightarrow>
   JsonWebEncryption decode parse rawJwe
     = (take 2 (map (js_index (js_split CHR ''.'' rawJwe)) [0, 1, 2, 3, 4]), Inl e)"
  by (simp add: JsonWebEncryption_def Let_def)

lemma jwe_stops_at_2:
  "parseJweProtectedHeader decode parse (js_index (js_split CHR ''.'' rawJwe) 0) = Inr h \<Longrightarrow>
   decode (js_index (js_split CHR ''.'' rawJwe) 1) = Inr ek \<Longrightarrow>
   decode (js_index (js_split CHR ''.'' rawJwe) 2) = Inl e \<Longrightarrow>
   JsonWebEncryption decode parse rawJwe
     = (take 3 (map (js_index (js_split CHR ''.'' rawJwe)) [0, 1, 2, 3, 4]), Inl e)"
  by (simp add: JsonWebEncryption_def Let_def)

lemma jwe_stops_at_3:
  "parseJweProtectedHeader decode parse (js_index (js_split CHR ''.'' rawJwe) 0) = Inr h \<Longrightarrow>
   decode (js_index (js_split CHR ''.'' rawJwe) 1) = Inr ek \<Longrightarrow>
   decode (js_index (js_split CHR ''.'' rawJwe) 2) = Inr iv \<Longrightarrow>
   decode (js_index (js_split CHR ''.'' rawJwe) 3) = Inl e \<Longrightarrow>
   JsonWebEncryption decode parse rawJwe
     = (take 4 (map (js_index (js_split CHR ''.'' rawJwe)) [0, 1, 2, 3, 4]), Inl e)"
  by (simp add: JsonWebEncryption_def Let_def)

lemma jwe_stops_at_4:
  "parseJweProtectedHeader decode parse (js_index (js_split CHR ''.'' rawJwe) 0) = Inr h \<Longrightarrow>
   decode (js_index (js_split CHR ''.'' rawJwe) 1) = Inr ek \<Longrightarrow>
   decode (js_index (js_split CHR ''.'' rawJwe) 2) = Inr iv \<Longrightarrow>
   decode (js_index (js_split CHR ''.'' rawJwe) 3) = Inr ct \<Longrightarrow>
   decode (js_index (js_split CHR ''.'' rawJwe) 4) = Inl e \<Longrightarrow>
   JsonWebEncryption decode parse rawJwe
     = (take 5 (map (js_index (js_split CHR ''.'' rawJwe)) [0, 1, 2, 3, 4]), Inl e)"
  by (simp add: JsonWebEncryption_def Let_def)

lemma jwe_constructs:
  "parseJweProtectedHeader decode parse (js_index (js_split CHR ''.'' rawJwe) 0) = Inr h \<Longrightarrow>
   decode (js_index (js_split CHR ''.'' rawJwe) 1) = Inr ek \<Longrightarrow>
   decode (js_index (js_split CHR ''.'' rawJwe) 2) = Inr iv \<Longrightarrow>
   decode (js_index (js_split CHR ''.'' rawJwe) 3) = Inr ct \<Longrightarrow>
   decode (js_index (js_split CHR ''.'' rawJwe) 4) = Inr tag \<Longrightarrow>
   JsonWebEncryption decode parse rawJwe
     = (map (js_index (js_split CHR ''.'' rawJwe)) [0, 1, 2, 3, 4],
        Inr \<lparr>header = h, encryptedKey = ek, initializationVector = iv, ciphertext = ct,
             authenticationTag = tag\<rparr>)"
  by (simp add: JsonWebEncryption_def Let_def)

text \<open>
  C10 (as amended). The constructor splits the input on \<open>.\<close> and calls the decoder on the
  segments 0 to 4 in that fixed order, with no check on the number of segments. A call is
  made only when every earlier decoder call and the header's \<^verbatim>\<open>JSON.parse\<close>
  returned normally: when the header fails to decode or to parse, the decoder has been
  called on segment 0 only; when the decoder throws on segment \<open>i\<close>, it has been called
  on the segments 0 to \<open>i\<close> only; in both cases construction ends with that exception.
  When all five calls and the parser return, the object holds the parsed header and the
  four decoded segments. The constructor raises no exception of its own. An input with
  fewer than five segments whose segments all decode and whose header parses reaches the
  decoder with \<^verbatim>\<open>undefined\<close>.
\<close>

theorem JsonWebEncryption_no_segment_count_check:
  "parseJweProtectedHeader decode parse (js_index (js_split CHR ''.'' rawJwe) 0)
     = (case decode (js_index (js_split CHR ''.'' rawJwe) 0) of
          Inl e \<Rightarrow> Inl e
        | Inr d \<Rightarrow> parse d)
   \<and> (\<forall>e. parseJweProtectedHeader decode parse (js_index (js_split CHR ''.'' rawJwe) 0) = Inl e
        \<longrightarrow> JsonWebEncryption decode parse rawJwe
            = (take 1 (map (js_index (js_split CHR ''.'' rawJwe)) [0, 1, 2, 3, 4]), Inl e))
   \<and> (\<forall>h e. parseJweProtectedHeader decode parse (js_index (js_split CHR ''.'' rawJwe) 0) = Inr h
        \<and> decode (js_index (js_split CHR ''.'' rawJwe) 1) = Inl e
        \<longrightarrow> JsonWebEncryption decode parse rawJwe
            = (take 2 (map (js_index (js_split CHR ''.'' rawJwe)) [0, 1, 2, 3, 4]), Inl e))
   \<and> (\<forall>h ek e. parseJweProtectedHeader decode parse (js_index (js_split CHR ''.'' rawJwe) 0) = Inr h
        \<and> decode (js_index (js_split CHR ''.'' rawJwe) 1) = Inr ek
        \<and> decode (js_index (js_split CHR ''.'' rawJwe) 2) = Inl e
        \<longrightarrow> JsonWebEncryption decode parse rawJwe
            = (take 3 (map (js_index (js_split CHR ''.'' rawJwe)) [0, 1, 2, 3, 4]), Inl e))
   \<and> (\<forall>h ek iv e. parseJweProtectedHeader decode parse (js_index (js_split CHR ''.'' rawJwe) 0) = Inr h
        \<and> decode (js_index (js_split CHR ''.'' rawJwe) 1) = Inr ek
        \<and> decode (js_index (js_split CHR ''.'' rawJwe) 2) = Inr iv
        \<and> decode (js_index (js_split CHR ''.'' rawJwe) 3) = Inl e
        \<longrightarrow> JsonWebEncryption decode parse rawJwe
            = (take 4 (map (js_index (js_split CHR ''.'' rawJwe)) [0, 1, 2, 3, 4]), Inl e))
   \<and> (\<forall>h ek iv ct e. parseJweProtectedHeader decode parse (js_index (js_split CHR ''.'' rawJwe) 0) = Inr h
        \<and> decode (js_index (js_split CHR ''.'' rawJwe) 1) = Inr ek
        \<and> decode (js_index (js_split CHR ''.'' rawJwe) 2) = Inr iv
        \<and> decode (js_index (js_split CHR ''.'' rawJwe) 3) = Inr ct
        \<and> decode (js_index (js_split CHR ''.'' rawJwe) 4) = Inl e
        \<longrightarrow> JsonWebEncryption decode parse rawJwe
            = (take 5 (map (js_index (js_split CHR ''.'' rawJwe)) [0, 1, 2, 3, 4]), Inl e))
   \<and> (\<forall>h ek iv ct tag.
        parseJweProtectedHeader decode parse (js_index (js_split CHR ''.'' rawJwe) 0) = Inr h
        \<and> decode (js_index (js_split CHR ''.'' rawJwe) 1) = Inr ek
        \<and> decode (js_index (js_split CHR ''.'' rawJwe) 2) = Inr iv
        \<and> decode (js_index (js_split CHR ''.'' rawJwe) 3) = Inr ct
        \<and> decode (js_index (js_split CHR ''.'' rawJwe) 4) = Inr tag
        \<longrightarrow> JsonWebEncryption decode parse rawJwe
            = (map (js_index (js_split CHR ''.'' rawJwe)) [0, 1, 2, 3, 4],
               Inr \<lparr>header = h, encryptedKey = ek, initializationVector = iv,
                    ciphertext = ct, authenticationTag = tag\<rparr>))
   \<and> (\<exists>k. 1 \<le> k \<and> k \<le> 5 \<and>
        fst (JsonWebEncryption decode parse rawJwe)
          = take k (map (js_index (js_split CHR ''.'' rawJwe)) [0, 1, 2, 3, 4]))
   \<and> (\<forall>j. snd (JsonWebEncryption decode parse rawJwe) = Inr j \<longrightarrow>
        fst (JsonWebEncryption decode parse rawJwe)
          = map (js_index (js_split CHR ''.'' rawJwe)) [0, 1, 2, 3, 4]
        \<and> parseJweProtectedHeader decode parse (js_index (js_split CHR ''.'' rawJwe) 0)
            = Inr (header j)
        \<and> decode (js_index (js_split CHR ''.'' rawJwe) 1) = Inr (encryptedKey j)
        \<and> decode (js_index (js_split CHR ''.'' rawJwe) 2) = Inr (initializationVector j)
        \<and> decode (js_index (js_split CHR ''.'' rawJwe) 3) = Inr (ciphertext j)
        \<and> decode (js_index (js_split CHR ''.'' rawJwe) 4) = Inr (authenticationTag j))
   \<and> (\<forall>e. snd (JsonWebEncryption decode parse rawJwe) = Inl e \<longrightarrow>
        decode (last (fst (JsonWebEncryption decode parse rawJwe))) = Inl e
        \<or> (\<exists>d. decode (js_index (js_split CHR ''.'' rawJwe) 0) = Inr d \<and> parse d = Inl e))
   \<and> (length (js_split CHR ''.'' rawJwe) < 5
        \<and> (\<forall>s \<in> set (js_split CHR ''.'' rawJwe). \<exists>d. decode (Some s) = Inr d)
        \<and> (\<forall>d. decode (js_index (js_split CHR ''.'' rawJwe) 0) = Inr d
               \<longrightarrow> (\<exists>h. parse d = Inr h))
        \<longrightarrow> None \<in> set (fst (JsonWebEncryption decode parse rawJwe)))"
proof -
  have stops: "(\<forall>e. parseJweProtectedHeader decode parse (js_index (js_split CHR ''.'' rawJwe) 0) = Inl e
        \<longrightarrow> JsonWebEncryption decode parse rawJwe
            = (take 1 (map (js_index (js_split CHR ''.'' rawJwe)) [0, 1, 2, 3, 4]), Inl e))
   \<and> (\<forall>h e. parseJweProtectedHeader decode parse (js_index (js_split CHR ''.'' rawJwe) 0) = Inr h
        \<and> decode (js_index (js_split CHR ''.'' rawJwe) 1) = Inl e
        \<longrightarrow> JsonWebEncryption decode parse rawJwe
            = (take 2 (map (js_index (js_split CHR ''.'' rawJwe)) [0, 1, 2, 3, 4]), Inl e))
   \<and> (\<forall>h ek e. parseJweProtectedHeader decode parse (js_index (js_split CHR ''.'' rawJwe) 0) = Inr h
        \<and> decode (js_index (js_split CHR ''.'' rawJwe) 1) = Inr ek
        \<and> decode (js_index (js_split CHR ''.'' rawJwe) 2) = Inl e
        \<longrightarrow> JsonWebEncryption decode parse rawJwe
            = (take 3 (map (js_index (js_split CHR ''.'' rawJwe)) [0, 1, 2, 3, 4]), Inl e))
   \<and> (\<forall>h ek iv e. parseJweProtectedHeader decode parse (js_index (js_split CHR ''.'' rawJwe) 0) = Inr h
        \<and> decode (js_index (js_split CHR ''.'' rawJwe) 1) = Inr ek
        \<and> decode (js_index (js_split CHR ''.'' rawJwe) 2) = Inr iv
        \<and> decode (js_index (js_split CHR ''.'' rawJwe) 3) = Inl e
        \<longrightarrow> JsonWebEncryption decode parse rawJwe
            = (take 4 (map (js_index (js_split CHR ''.'' rawJwe)) [0, 1, 2, 3, 4]), Inl e))
   \<and> (\<forall>h ek iv ct e. parseJweProtectedHeader decode parse (js_index (js_split CHR ''.'' rawJwe) 0) = Inr h
        \<and> decode (js_index (js_split CHR ''.'' rawJwe) 1) = Inr ek
        \<and> decode (js_index (js_split CHR ''.'' rawJwe) 2) = Inr iv
        \<and> decode (js_index (js_split CHR ''.'' rawJwe) 3) = Inr ct
        \<and> decode (js_index (js_split CHR ''.'' rawJwe) 4) = Inl e
        \<longrightarrow> JsonWebEncryption decode parse rawJwe
            = (take 5 (map (js_index (js_split CHR ''.'' rawJwe)) [0, 1, 2, 3, 4]), Inl e))
   \<and> (\<forall>h ek iv ct tag.
        parseJweProtectedHeader decode parse (js_index (js_split CHR ''.'' rawJwe) 0) = Inr h
        \<and> decode (js_index (js_split CHR ''.'' rawJwe) 1) = Inr ek
        \<and> decode (js_index (js_split CHR ''.'' rawJwe) 2) = Inr iv
        \<and> decode (js_index (js_split CHR ''.'' rawJwe) 3) = Inr ct
        \<and> decode (js_index (js_split CHR ''.'' rawJwe) 4) = Inr tag
        \<longrightarrow> JsonWebEncryption decode parse rawJwe
            = (map (js_index (js_split CHR ''.'' rawJwe)) [0, 1, 2, 3, 4],
               Inr \<lparr>header = h, encryptedKey = ek, initializationVector = iv,
                    ciphertext = ct, authenticationTag = tag\<rparr>))"
    using jwe_stops_at_header [of decode parse rawJwe]
      jwe_stops_at_1 [of decode parse rawJwe]
      jwe_stops_at_2 [of decode parse rawJwe]
      jwe_stops_at_3 [of decode parse rawJwe]
      jwe_stops_at_4 [of decode parse rawJwe]
      jwe_constructs [of decode parse rawJwe]
    by blast
  have rest: "(\<exists>k. 1 \<le> k \<and> k \<le> 5 \<and>
        fst (JsonWebEncryption decode parse rawJwe)
          = take k (map (js_index (js_split CHR ''.'' rawJwe)) [0, 1, 2, 3, 4]))
   \<and> (\<forall>j. snd (JsonWebEncryption decode parse rawJwe) = Inr j \<longrightarrow>
        fst (JsonWebEncryption decode parse rawJwe)
          = map (js_index (js_split CHR ''.'' rawJwe)) [0, 1, 2, 3, 4]
        \<and> parseJweProtectedHeader decode parse (js_index (js_split CHR ''.'' rawJwe) 0)
            = Inr (header j)
        \<and> decode (js_index (js_split CHR ''.'' rawJwe) 1) = Inr (encryptedKey j)
        \<and> decode (js_index (js_split CHR ''.'' rawJwe) 2) = Inr (initializationVector j)
        \<and> decode (js_index (js_split CHR ''.'' rawJwe) 3) = Inr (ciphertext j)
        \<and> decode (js_index (js_split CHR ''.'' rawJwe) 4) = Inr (authenticationTag j))
   \<and> (\<forall>e. snd (JsonWebEncryption decode parse rawJwe) = Inl e \<longrightarrow>
        decode (last (fst (JsonWebEncryption decode parse rawJwe))) = Inl e
        \<or> (\<exists>d. decode (js_index (js_split CHR ''.'' rawJwe) 0) = Inr d \<and> parse d = Inl e))
   \<and> (length (js_split CHR ''.'' rawJwe) < 5
        \<and> (\<forall>s \<in> set (js_split CHR ''.'' rawJwe). \<exists>d. decode (Some s) = Inr d)
        \<and> (\<forall>d. decode (js_index (js_split CHR ''.'' rawJwe) 0) = Inr d
               \<longrightarrow> (\<exists>h. parse d = Inr h))
        \<longrightarrow> None \<in> set (fst (JsonWebEncryption decode parse rawJwe)))"
    using jwe_calls_prefix [of decode parse rawJwe]
      jwe_success_all_five [of decode parse rawJwe]
      jwe_error_origin [of decode parse rawJwe]
      jwe_short_reaches_undefined [of rawJwe decode parse]
    by blast
  show ?thesis
    apply (rule conjI, rule parseJweProtectedHeader_cases)
    using stops rest apply (elim conjE)
    apply (intro conjI)
    apply assumption+
    done
qed

text \<open>
  Witness: the two-segment input \<open>h.k\<close>, with a decoder that returns a defined segment as
  it is and throws on \<^verbatim>\<open>undefined\<close>, and a parser that accepts everything. The
  third decoder call receives \<^verbatim>\<open>undefined\<close> and its exception ends construction
  after three calls.
\<close>

theorem JsonWebEncryption_no_segment_count_check_witness:
  "length (js_split CHR ''.'' ''h.k'') < 5
   \<and> parseJweProtectedHeader (case_option (Inl ''TypeError'') Inr)
        (Inr :: string \<Rightarrow> string + string) (js_index (js_split CHR ''.'' ''h.k'') 0)
       = Inr ''h''
   \<and> None \<in> set (fst (JsonWebEncryption (case_option (Inl ''TypeError'') Inr)
                          (Inr :: string \<Rightarrow> string + string) ''h.k''))
   \<and> JsonWebEncryption (case_option (Inl ''TypeError'') Inr)
        (Inr :: string \<Rightarrow> string + string) ''h.k''
       = ([Some ''h'', Some ''k'', None], Inl ''TypeError'')"
proof -
  let ?decode = "case_option (Inl ''TypeError'') Inr :: string option \<Rightarrow> string + string"
  let ?parse = "Inr :: string \<Rightarrow> string + string"
  have segs: "js_split CHR ''.'' ''h.k'' = [''h'', ''k'']"
    by simp
  have short: "length (js_split CHR ''.'' ''h.k'') < 5"
    by (simp add: segs)
  have hdr: "parseJweProtectedHeader ?decode ?parse (js_index (js_split CHR ''.'' ''h.k'') 0)
               = Inr ''h''"
    by (simp add: segs parseJweProtectedHeader_def js_index_def)
  have d1: "?decode (js_index (js_split CHR ''.'' ''h.k'') 1) = Inr ''k''"
    by (simp add: segs js_index_def)
  have d2: "?decode (js_index (js_split CHR ''.'' ''h.k'') 2) = Inl ''TypeError''"
    by (simp add: segs js_index_def)
  from JsonWebEncryption_no_segment_count_check [of ?decode ?parse "''h.k''"] hdr d1 d2
  have "JsonWebEncryption ?decode ?parse ''h.k''
          = (take 3 (map (js_index (js_split CHR ''.'' ''h.k'')) [0, 1, 2, 3, 4]),
             Inl ''TypeError'')"
    by blast
  then have r: "JsonWebEncryption ?decode ?parse ''h.k''
                  = ([Some ''h'', Some ''k'', None], Inl ''TypeError'')"
    by (simp add: segs js_index_def)
  then have "None \<in> set (fst (JsonWebEncryption ?decode ?parse ''h.k''))"
    by simp
  then show ?thesis using short hdr r by blast
qed

text \<open>
  C10 as stated fails: the segments 1 to 4 are not decoded unconditionally, and an input
  with fewer than five segments need not reach the decoder with \<^verbatim>\<open>undefined\<close>.
  On the one-segment input \<open>a\<close>, with a header that \<^verbatim>\<open>JSON.parse\<close> rejects, the
  exception is thrown again by \<^verbatim>\<open>parseJweProtectedHeader\<close> and construction ends
  after the first decoder call.
\<close>

theorem JsonWebEncryption_unconditional_decode_counterexample:
  "length (js_split CHR ''.'' ''a'') < 5
   \<and> None \<notin> set (fst (JsonWebEncryption (case_option (Inl ''TypeError'') Inr)
                          (\<lambda>s. Inl ''SyntaxError'' :: string + unit) ''a''))
   \<and> fst (JsonWebEncryption (case_option (Inl ''TypeError'') Inr)
             (\<lambda>s. Inl ''SyntaxError'' :: string + unit) ''a'')
       = [Some ''a'']
   \<and> snd (JsonWebEncryption (case_option (Inl ''TypeError'') Inr)
             (\<lambda>s. Inl ''SyntaxError'' :: string + unit) ''a'')
       = Inl ''SyntaxError''"
  by (simp add: JsonWebEncryption_def parseJweProtectedHeader_def js_index_def)

section \<open>Properties of the cache lookup of the specification\<close>

lemma latest_in: "latest xs = Some t \<Longrightarrow> t \<in> set xs"
  by (induction xs arbitrary: t) (auto split: option.splits if_splits)

lemma latest_None: "(latest xs = None) = (xs = [])"
  by (cases xs) (auto split: option.splits)

lemma latest_max: "latest xs = Some t \<Longrightarrow> u \<in> set xs \<Longrightarrow> cachedAt u \<le> cachedAt t"
  by (induction xs arbitrary: t) (fastforce split: option.splits if_splits simp: latest_None)+

lemma getAccessToken_Some:
  assumes "getAccessToken cache now skew a client requested tenant = Some t"
  shows "t \<in> set (accessTokens cache)
    \<and> homeAccountId t = homeAccountId a \<and> environment t = environment a
    \<and> clientId t = client \<and> realm t = tenant
    \<and> set requested \<subseteq> set (target t)
    \<and> \<not> within_skew_of_expiry skew now (expiresOn t)"
  using latest_in [OF assms [unfolded getAccessToken_def]] by simp

lemma getAccessToken_None:
  "(getAccessToken cache now skew a client requested tenant = None)
     = (\<forall>t \<in> set (accessTokens cache).
          \<not> (homeAccountId t = homeAccountId a \<and> environment t = environment a
             \<and> clientId t = client \<and> realm t = tenant
             \<and> set requested \<subseteq> set (target t)
             \<and> \<not> within_skew_of_expiry skew now (expiresOn t)))"
  by (simp add: getAccessToken_def latest_None filter_empty_conv)

lemma getAccessToken_not_within_skew:
  "getAccessToken cache now skew a client requested tenant = Some t \<Longrightarrow>
     now + skew < expiresOn t"
  by (drule getAccessToken_Some) (simp add: within_skew_of_expiry_def)

section \<open>Properties of the sample application\<close>

lemma getAuthCode_unfold:
  "getAuthCode env authority' scopes' state' s =
     (let s1 = s\<lparr>authCodeRequest := (authCodeRequest s)
                  \<lparr>authority := Some (AuthorityUrl authority'),
                   scopes := Some scopes',
                   state := Some state'\<rparr>\<rparr>
      in case generatePkceCodes env of
           Inl e \<Rightarrow> (s1, [Call_generatePkceCodes, UnhandledRejection e])
         | Inr (verifier', challenge') \<Rightarrow>
             (let s2 = s1\<lparr>locals_pkceCodes := (locals_pkceCodes s1)
                           \<lparr>verifier := verifier', challenge := challenge'\<rparr>\<rparr>;
                  s3 = s2\<lparr>authCodeRequest := (authCodeRequest s2)
                           \<lparr>codeChallenge := Some (challenge (locals_pkceCodes s2)),
                            codeChallengeMethod :=
                              Some (challengeMethod (locals_pkceCodes s2))\<rparr>\<rparr>
              in case getAuthCodeUrl env (authCodeRequest s3) of
                   Inr response \<Rightarrow>
                     (s3, [Call_generatePkceCodes, Call_getAuthCodeUrl (authCodeRequest s3),
                           Redirect response])
                 | Inl error \<Rightarrow>
                     (s3, [Call_generatePkceCodes, Call_getAuthCodeUrl (authCodeRequest s3),
                           ConsoleLog error])))"
  by (simp add: getAuthCode_def getAuthCode_request_def getAuthCode_callback_def Let_def
      split: sum.splits prod.splits)

subsection \<open>The cached-token path of \<^verbatim>\<open>/api\<close>\<close>

lemma api_hit:
  "locals_accessToken s = Some token \<Longrightarrow> token \<noteq> [] \<Longrightarrow>
     api_handler env pol s =
       (s, Call_callWebApi webApiUri token #
           (case callWebApi env webApiUri token of
              None \<Rightarrow> []
            | Some response \<Rightarrow> [Render ''api'' (ApiProfileParams False response)]))"
  by (simp add: api_handler_def js_truthy_def)

lemma api_miss:
  "\<not> js_truthy (locals_accessToken s) \<Longrightarrow>
     api_handler env pol s =
       getAuthCode env (signUpSignIn pol) SCOPES_resource1 APP_STATES_call_api s"
  by (simp add: api_handler_def)

lemma getAuthCode_first_effect:
  "hd (snd (getAuthCode env a sc st s)) = Call_generatePkceCodes"
  by (simp add: getAuthCode_unfold Let_def split: sum.splits prod.splits)

lemma api_hit_no_library_call:
  "locals_accessToken s = Some token \<Longrightarrow> token \<noteq> [] \<Longrightarrow>
     filter is_library_call (snd (api_handler env pol s)) = []"
  by (simp add: api_hit is_library_call_def split: option.splits)

lemma redirect_call_api_stores:
  "query ''state'' = Some APP_STATES_call_api \<Longrightarrow>
   acquireTokenByCode env
     ((tokenRequest s)\<lparr>authority := Some (AuthorityUrl (signUpSignIn pol)),
         scopes := Some SCOPES_resource1, code := query ''code'',
         codeVerifier := Some (verifier (locals_pkceCodes s))\<rparr>) = Inr r \<Longrightarrow>
   locals_accessToken (fst (redirect_handler env pol query s)) = Some (accessToken r)"
  by (simp add: redirect_handler_def Let_def APP_STATES_login_def APP_STATES_call_api_def)

text \<open>
  C1 (as amended). The cache lookup of the specification keeps the skew rule and the
  sample's cached-token path does not. \<open>getAccessToken\<close> returns only a token whose
  \<open>expiresOn\<close> lies more than the skew after the clock. The cached-token path of
  \<^verbatim>\<open>/api\<close> keeps no expiry: once the \<^verbatim>\<open>call_api\<close> branch of \<^verbatim>\<open>/redirect\<close> has
  stored a non-empty access token, the \<^verbatim>\<open>/api\<close> request hands that token to the web
  API, at every clock time and whatever the \<open>expiresOn\<close> of the library's result, and
  leaves the state as it is.
\<close>

theorem token_expiry_in_cache_lookup_and_api_path:
  assumes "query ''state'' = Some APP_STATES_call_api"
    and "acquireTokenByCode env0
           ((tokenRequest s)\<lparr>authority := Some (AuthorityUrl (signUpSignIn pol)),
              scopes := Some SCOPES_resource1, code := query ''code'',
              codeVerifier := Some (verifier (locals_pkceCodes s))\<rparr>) = Inr r"
    and "accessToken r \<noteq> []"
  shows "(\<forall>env. hd (snd (api_handler env pol (fst (redirect_handler env0 pol query s))))
                 = Call_callWebApi webApiUri (accessToken r)
               \<and> fst (api_handler env pol (fst (redirect_handler env0 pol query s)))
                 = fst (redirect_handler env0 pol query s))
    \<and> (\<forall>t. getAccessToken cache now skew a client requested tenant = Some t
          \<longrightarrow> \<not> within_skew_of_expiry skew now (expiresOn t) \<and> now + skew < expiresOn t)"
proof -
  have "\<forall>env. hd (snd (api_handler env pol (fst (redirect_handler env0 pol query s))))
                 = Call_callWebApi webApiUri (accessToken r)
               \<and> fst (api_handler env pol (fst (redirect_handler env0 pol query s)))
                 = fst (redirect_handler env0 pol query s)"
    using redirect_call_api_stores [OF assms(1,2)] assms(3)
    by (simp add: api_hit)
  then show ?thesis
    using getAccessToken_Some [of cache now skew a client requested tenant]
      getAccessToken_not_within_skew [of cache now skew a client requested tenant]
    by blast
qed

text \<open>
  Witness: in the sample a token that expires at 3600 is stored at time 0 and is served
  at time 7200; the cache lookup of the specification returns a token that expires at
  3600 when asked at time 1000 with the skew 300.
\<close>

theorem token_expiry_in_cache_lookup_and_api_path_witness:
  "call_api_query ''state'' = Some APP_STATES_call_api
   \<and> accessToken (example_result SCOPES_resource1 3600) \<noteq> []
   \<and> hd (snd (api_handler (example_env 7200 (''v2'', ''c2'') (example_result [] 0))
                example_policies
                (fst (redirect_handler
                        (example_env 0 (''v1'', ''c1'') (example_result SCOPES_resource1 3600))
                        example_policies call_api_query initial_state))))
       = Call_callWebApi webApiUri ''tok''
   \<and> getAccessToken example_cache_with_token 1000 300 example_account ''C1'' [''read''] ''T1''
       = Some example_access_token
   \<and> 1000 + 300 < expiresOn example_access_token"
proof -
  let ?env0 = "example_env 0 (''v1'', ''c1'') (example_result SCOPES_resource1 3600)"
  have a: "call_api_query ''state'' = Some APP_STATES_call_api"
    by (simp add: call_api_query_def APP_STATES_call_api_def)
  have b: "acquireTokenByCode ?env0
             ((tokenRequest initial_state)
                \<lparr>authority := Some (AuthorityUrl (signUpSignIn example_policies)),
                 scopes := Some SCOPES_resource1, code := call_api_query ''code'',
                 codeVerifier := Some (verifier (locals_pkceCodes initial_state))\<rparr>)
           = Inr (example_result SCOPES_resource1 3600)"
    by (simp add: example_env_def)
  have c: "accessToken (example_result SCOPES_resource1 3600) \<noteq> []"
    by (simp add: example_result_def)
  have g: "getAccessToken example_cache_with_token 1000 300 example_account ''C1'' [''read''] ''T1''
       = Some example_access_token"
    by (simp add: getAccessToken_def example_cache_with_token_def example_cache_def
        example_access_token_def example_account_def within_skew_of_expiry_def)
  note inst = token_expiry_in_cache_lookup_and_api_path [OF a b c,
      of example_cache_with_token 1000 300 example_account "''C1''" "[''read'']" "''T1''"]
  from inst
  have x: "hd (snd (api_handler (example_env 7200 (''v2'', ''c2'') (example_result [] 0))
                  example_policies
                  (fst (redirect_handler ?env0 example_policies call_api_query initial_state))))
        = Call_callWebApi webApiUri (accessToken (example_result SCOPES_resource1 3600))"
    by blast
  from inst g have y: "1000 + 300 < expiresOn example_access_token"
    by blast
  from x have "hd (snd (api_handler (example_env 7200 (''v2'', ''c2'') (example_result [] 0))
                  example_policies
                  (fst (redirect_handler ?env0 example_policies call_api_query initial_state))))
        = Call_callWebApi webApiUri ''tok''"
    by (simp add: example_result_def)
  then show ?thesis using a c g y by blast
qed

text \<open>
  C1 as stated fails on \<^verbatim>\<open>/api\<close>: the token stored at time 0 with \<open>expiresOn = 3600\<close>
  is handed to the web API at time 7200, past its expiry and so within the skew of it.
\<close>

theorem api_serves_expired_token_counterexample:
  "result_expiresOn (example_result SCOPES_resource1 3600) = 3600
   \<and> within_skew_of_expiry default_skew
        (clock (example_env 7200 (''v2'', ''c2'') (example_result [] 0) :: auth_error env))
        (result_expiresOn (example_result SCOPES_resource1 3600))
   \<and> snd (api_handler (example_env 7200 (''v2'', ''c2'') (example_result [] 0))
            example_policies
            (fst (redirect_handler
                    (example_env 0 (''v1'', ''c1'') (example_result SCOPES_resource1 3600))
                    example_policies call_api_query initial_state)))
       = [Call_callWebApi webApiUri (accessToken (example_result SCOPES_resource1 3600)),
          Render ''api'' (ApiProfileParams False ''{}'')]"
  by (simp add: api_handler_def redirect_handler_def Let_def js_truthy_def
      call_api_query_def APP_STATES_call_api_def APP_STATES_login_def example_env_def
      example_result_def within_skew_of_expiry_def default_skew_def initial_state_def)

lemma getAuthCode_no_web_api_call:
  "Call_callWebApi u t \<notin> set (snd (getAuthCode env a sc st s))"
  by (simp add: getAuthCode_unfold Let_def split: sum.splits prod.splits)

text \<open>
  C5 (as amended). The cache lookup of the specification follows the matching rule and
  the sample's cached-token path does not. \<open>getAccessToken\<close> returns only a cached
  candidate of the account with identical client id and realm, whose target is a superset
  of the requested scopes and which is not expired under the skew rule, and it is a miss
  exactly when no cached candidate is such. \<^verbatim>\<open>/api\<close> has a hit exactly when a non-empty
  access token is stored. A hit hands the stored token to the web API with no call to the
  library and leaves the state unchanged; client id, realm, scopes and expiry are not
  compared. A miss is the authorization-code request for the web API scopes and calls no
  web API.
\<close>

theorem token_matching_in_cache_lookup_and_api_path:
  "(js_truthy (locals_accessToken s) \<longrightarrow>
      (\<exists>token. locals_accessToken s = Some token \<and> token \<noteq> []
         \<and> hd (snd (api_handler env pol s)) = Call_callWebApi webApiUri token
         \<and> filter is_library_call (snd (api_handler env pol s)) = []
         \<and> fst (api_handler env pol s) = s))
   \<and> (\<not> js_truthy (locals_accessToken s) \<longrightarrow>
        api_handler env pol s
          = getAuthCode env (signUpSignIn pol) SCOPES_resource1 APP_STATES_call_api s
        \<and> hd (snd (api_handler env pol s)) = Call_generatePkceCodes
        \<and> (\<forall>u t. Call_callWebApi u t \<notin> set (snd (api_handler env pol s))))
   \<and> (\<forall>t. getAccessToken cache now skew a client requested tenant = Some t \<longrightarrow>
        t \<in> set (accessTokens cache)
        \<and> homeAccountId t = homeAccountId a \<and> environment t = environment a
        \<and> clientId t = client \<and> realm t = tenant
        \<and> set requested \<subseteq> set (target t)
        \<and> \<not> within_skew_of_expiry skew now (expiresOn t))
   \<and> ((getAccessToken cache now skew a client requested tenant = None)
        = (\<forall>t \<in> set (accessTokens cache).
             \<not> (homeAccountId t = homeAccountId a \<and> environment t = environment a
                \<and> clientId t = client \<and> realm t = tenant
                \<and> set requested \<subseteq> set (target t)
                \<and> \<not> within_skew_of_expiry skew now (expiresOn t))))"
proof -
  have api: "(js_truthy (locals_accessToken s) \<longrightarrow>
      (\<exists>token. locals_accessToken s = Some token \<and> token \<noteq> []
         \<and> hd (snd (api_handler env pol s)) = Call_callWebApi webApiUri token
         \<and> filter is_library_call (snd (api_handler env pol s)) = []
         \<and> fst (api_handler env pol s) = s))
   \<and> (\<not> js_truthy (locals_accessToken s) \<longrightarrow>
        api_handler env pol s
          = getAuthCode env (signUpSignIn pol) SCOPES_resource1 APP_STATES_call_api s
        \<and> hd (snd (api_handler env pol s)) = Call_generatePkceCodes
        \<and> (\<forall>u t. Call_callWebApi u t \<notin> set (snd (api_handler env pol s))))"
  proof (cases "js_truthy (locals_accessToken s)")
    case True
    then obtain token where t: "locals_accessToken s = Some token" "token \<noteq> []"
      by (auto simp: js_truthy_def split: option.splits)
    show ?thesis
      using True t api_hit [OF t, of env pol] api_hit_no_library_call [OF t, of env pol]
      by simp
  next
    case False
    then show ?thesis
      by (simp add: api_miss getAuthCode_first_effect getAuthCode_no_web_api_call)
  qed
  have some: "\<forall>t. getAccessToken cache now skew a client requested tenant = Some t \<longrightarrow>
        t \<in> set (accessTokens cache)
        \<and> homeAccountId t = homeAccountId a \<and> environment t = environment a
        \<and> clientId t = client \<and> realm t = tenant
        \<and> set requested \<subseteq> set (target t)
        \<and> \<not> within_skew_of_expiry skew now (expiresOn t)"
    using getAccessToken_Some [of cache now skew a client requested tenant] by blast
  show ?thesis
    using api some getAccessToken_None [of cache now skew a client requested tenant]
    by blast
qed

text \<open>
  Witness: in the sample, a hit in the state left by a \<^verbatim>\<open>call_api\<close> redirect and a miss
  in the initial state; in the cache of the specification, with a token for the scope
  \<open>read\<close> cached, a request for \<open>read\<close> is a hit and a request for \<open>read\<close> and
  \<open>write\<close> is a miss.
\<close>

theorem token_matching_in_cache_lookup_and_api_path_witness:
  "js_truthy (locals_accessToken
       (fst (redirect_handler
               (example_env 0 (''v1'', ''c1'') (example_result [''read''] 3600))
               example_policies call_api_query initial_state)))
   \<and> hd (snd (api_handler (example_env 10 (''v2'', ''c2'') (example_result [] 0))
                example_policies
                (fst (redirect_handler
                        (example_env 0 (''v1'', ''c1'') (example_result [''read''] 3600))
                        example_policies call_api_query initial_state))))
       = Call_callWebApi webApiUri ''tok''
   \<and> \<not> js_truthy (locals_accessToken initial_state)
   \<and> hd (snd (api_handler (example_env 10 (''v2'', ''c2'') (example_result [] 0))
                example_policies initial_state))
       = Call_generatePkceCodes
   \<and> getAccessToken example_cache_with_token 0 300 example_account ''C1'' [''read''] ''T1''
       = Some example_access_token
   \<and> set [''read''] \<subseteq> set (target example_access_token)
   \<and> getAccessToken example_cache_with_token 0 300 example_account ''C1''
        [''read'', ''write''] ''T1''
       = None"
proof -
  let ?s1 = "fst (redirect_handler
               (example_env 0 (''v1'', ''c1'') (example_result [''read''] 3600))
               example_policies call_api_query initial_state)"
  let ?env = "example_env 10 (''v2'', ''c2'') (example_result [] 0)"
  have t: "locals_accessToken ?s1 = Some ''tok''"
    by (simp add: redirect_handler_def Let_def call_api_query_def APP_STATES_call_api_def
        APP_STATES_login_def example_env_def example_result_def)
  have a: "js_truthy (locals_accessToken ?s1)"
    by (simp add: t js_truthy_def)
  have b: "\<not> js_truthy (locals_accessToken initial_state)"
    by (simp add: initial_state_def js_truthy_def)
  have g: "getAccessToken example_cache_with_token 0 300 example_account ''C1'' [''read''] ''T1''
       = Some example_access_token"
    by (simp add: getAccessToken_def example_cache_with_token_def example_cache_def
        example_access_token_def example_account_def within_skew_of_expiry_def)
  have n: "\<forall>t \<in> set (accessTokens example_cache_with_token).
             \<not> (homeAccountId t = homeAccountId example_account
                \<and> environment t = environment example_account
                \<and> clientId t = ''C1'' \<and> realm t = ''T1''
                \<and> set [''read'', ''write''] \<subseteq> set (target t)
                \<and> \<not> within_skew_of_expiry 300 0 (expiresOn t))"
    by (simp add: example_cache_with_token_def example_access_token_def)
  from token_matching_in_cache_lookup_and_api_path
    [of ?s1 ?env example_policies example_cache_with_token 0 300 example_account "''C1''"
        "[''read'']" "''T1''"] a t g
  have c: "hd (snd (api_handler ?env example_policies ?s1)) = Call_callWebApi webApiUri ''tok''"
    and e: "set [''read''] \<subseteq> set (target example_access_token)"
    by auto
  from token_matching_in_cache_lookup_and_api_path
    [of initial_state ?env example_policies example_cache_with_token 0 300 example_account
        "''C1''" "[''read'', ''write'']" "''T1''"] b n
  have d: "hd (snd (api_handler ?env example_policies initial_state)) = Call_generatePkceCodes"
    and f: "getAccessToken example_cache_with_token 0 300 example_account ''C1''
        [''read'', ''write''] ''T1'' = None"
    by blast+
  show ?thesis using a b c d e f g by blast
qed

text \<open>
  C5 as stated fails on \<^verbatim>\<open>/api\<close>: a stored token that was granted the scope
  \<open>read\<close> only, not a superset of the scopes \<^verbatim>\<open>/api\<close> asks for, and not expired
  under the skew rule, is still a hit.
\<close>

theorem api_hit_ignores_scopes_counterexample:
  "\<not> set SCOPES_resource1 \<subseteq> set (result_scopes (example_result [''read''] 3600))
   \<and> \<not> within_skew_of_expiry default_skew
          (clock (example_env 10 (''v2'', ''c2'') (example_result [] 0) :: auth_error env))
          (result_expiresOn (example_result [''read''] 3600))
   \<and> snd (api_handler (example_env 10 (''v2'', ''c2'') (example_result [] 0))
            example_policies
            (fst (redirect_handler
                    (example_env 0 (''v1'', ''c1'') (example_result [''read''] 3600))
                    example_policies call_api_query initial_state)))
       = [Call_callWebApi webApiUri (accessToken (example_result [''read''] 3600)),
          Render ''api'' (ApiProfileParams False ''{}'')]"
  by (simp add: api_handler_def redirect_handler_def Let_def js_truthy_def
      call_api_query_def APP_STATES_call_api_def APP_STATES_login_def example_env_def
      example_result_def within_skew_of_expiry_def default_skew_def initial_state_def
      SCOPES_resource1_def webApiScopes_def)

subsection \<open>The redirect handler and the PKCE codes\<close>

lemma app_states_distinct:
  "APP_STATES_login \<noteq> APP_STATES_call_api"
  "APP_STATES_login \<noteq> APP_STATES_password_reset"
  "APP_STATES_call_api \<noteq> APP_STATES_password_reset"
  by (simp_all add: APP_STATES_login_def APP_STATES_call_api_def APP_STATES_password_reset_def)

lemma redirect_unknown_state:
  "query ''state'' \<noteq> Some APP_STATES_login \<Longrightarrow>
   query ''state'' \<noteq> Some APP_STATES_call_api \<Longrightarrow>
   query ''state'' \<noteq> Some APP_STATES_password_reset \<Longrightarrow>
   redirect_handler env pol query s = (s, [Send500 (TextBody ''Unknown'')])"
  by (simp add: redirect_handler_def)

lemma redirect_password_reset:
  "query ''state'' = Some APP_STATES_password_reset \<Longrightarrow>
   redirect_handler env pol query s =
     (s\<lparr>authCodeRequest := (authCodeRequest s)\<lparr>state := Some APP_STATES_login\<rparr>\<rparr>,
      [Redirect ''/login''])"
  using app_states_distinct by (simp add: redirect_handler_def)

lemma redirect_login_exchanges:
  "query ''state'' = Some APP_STATES_login \<Longrightarrow>
   hd (snd (redirect_handler env pol query s))
     = Call_acquireTokenByCode (tokenRequest (fst (redirect_handler env pol query s)))
   \<and> tokenRequest (fst (redirect_handler env pol query s))
     = (tokenRequest s)\<lparr>scopes := Some SCOPES_oidc, code := query ''code'',
          codeVerifier := Some (verifier (locals_pkceCodes s))\<rparr>"
  by (simp add: redirect_handler_def Let_def split: sum.splits option.splits)

lemma redirect_call_api_exchanges:
  "query ''state'' = Some APP_STATES_call_api \<Longrightarrow>
   hd (snd (redirect_handler env pol query s))
     = Call_acquireTokenByCode (tokenRequest (fst (redirect_handler env pol query s)))
   \<and> tokenRequest (fst (redirect_handler env pol query s))
     = (tokenRequest s)\<lparr>authority := Some (AuthorityUrl (signUpSignIn pol)),
          scopes := Some SCOPES_resource1, code := query ''code'',
          codeVerifier := Some (verifier (locals_pkceCodes s))\<rparr>"
  using app_states_distinct
  by (simp add: redirect_handler_def Let_def split: sum.splits option.splits)

lemma redirect_keeps_pkceCodes:
  "locals_pkceCodes (fst (redirect_handler env pol query s)) = locals_pkceCodes s"
  by (simp add: redirect_handler_def Let_def split: sum.splits option.splits)

lemma getAuthCode_request_state:
  "Call_getAuthCodeUrl req \<in> set (snd (getAuthCode env a sc st s)) \<Longrightarrow>
     state req = Some st \<and> scopes req = Some sc \<and> authority req = Some (AuthorityUrl a)
     \<and> (\<exists>v c. generatePkceCodes env = Inr (v, c) \<and> codeChallenge req = Some c)
     \<and> codeChallengeMethod req = Some (challengeMethod (locals_pkceCodes s))"
  by (auto simp: getAuthCode_unfold Let_def split: sum.splits prod.splits)

lemma getAuthCode_stores_codes:
  "generatePkceCodes env = Inr (v, c) \<Longrightarrow>
     locals_pkceCodes (fst (getAuthCode env a sc st s))
       = (locals_pkceCodes s)\<lparr>verifier := v, challenge := c\<rparr>"
  by (simp add: getAuthCode_unfold Let_def split: sum.splits prod.splits)

lemma getAuthCode_keeps_codes_on_failure:
  "generatePkceCodes env = Inl e \<Longrightarrow>
     locals_pkceCodes (fst (getAuthCode env a sc st s)) = locals_pkceCodes s"
  by (simp add: getAuthCode_unfold Let_def split: sum.splits prod.splits)

lemma handle_request_state:
  assumes "Call_getAuthCodeUrl req \<in> set (snd (handle pol (env, r) s))"
  shows "state req = Some APP_STATES_login \<or> state req = Some APP_STATES_call_api
     \<or> state req = Some APP_STATES_password_reset"
proof (cases r)
  case Root
  with assms show ?thesis by (simp add: root_handler_def)
next
  case Login
  with assms show ?thesis
    by (auto simp: login_handler_def dest: getAuthCode_request_state split: if_splits)
next
  case Profile
  with assms show ?thesis
    by (auto simp: profile_handler_def dest: getAuthCode_request_state)
next
  case Api
  with assms show ?thesis
    by (auto simp: api_handler_def dest: getAuthCode_request_state split: if_splits option.splits)
next
  case (RedirectRoute q)
  with assms show ?thesis
    by (auto simp: redirect_handler_def Let_def split: if_splits sum.splits option.splits)
qed

lemma getAuthCode_callback_stores_codes:
  "generatePkceCodes env = Inr (v, c) \<Longrightarrow>
     locals_pkceCodes (fst (getAuthCode_callback env s))
       = (locals_pkceCodes s)\<lparr>verifier := v, challenge := c\<rparr>
     \<and> codeChallenge (authCodeRequest (fst (getAuthCode_callback env s))) = Some c
     \<and> codeChallengeMethod (authCodeRequest (fst (getAuthCode_callback env s)))
         = Some (challengeMethod (locals_pkceCodes s))"
  by (simp add: getAuthCode_callback_def Let_def split: sum.splits)

lemma getAuthCode_steps_keep_challengeMethod:
  "challengeMethod (locals_pkceCodes (getAuthCode_request a sc st s))
     = challengeMethod (locals_pkceCodes s)"
  "challengeMethod (locals_pkceCodes (fst (getAuthCode_callback env s)))
     = challengeMethod (locals_pkceCodes s)"
  by (simp_all add: getAuthCode_request_def getAuthCode_callback_def Let_def
      split: sum.splits prod.splits)

lemma getAuthCode_callback_request:
  "Call_getAuthCodeUrl req \<in> set (snd (getAuthCode_callback env s)) \<Longrightarrow>
     state req = state (authCodeRequest s) \<and> scopes req = scopes (authCodeRequest s)
     \<and> authority req = authority (authCodeRequest s)"
  by (auto simp: getAuthCode_callback_def Let_def split: sum.splits prod.splits)

text \<open>
  C2 (as amended). \<^verbatim>\<open>/redirect\<close> compares the received state with the three fixed
  application states, not with a record of a pending request. Any other state, or none, is
  answered with status 500 and the text \<open>Unknown\<close>, with no code exchange and no change
  of state. The states \<open>login\<close> and \<open>call_api\<close> always start a code exchange with the
  received code, whether or not a request is pending; \<open>password_reset\<close> redirects to
  \<^verbatim>\<open>/login\<close>. The state sent in an authorization request is the one that the shared
  \<^verbatim>\<open>authCodeRequest\<close> holds when the callback of the PKCE generation runs. When no
  other request is handled between a call of \<open>getAuthCode\<close> and its callback, that is the
  state its caller passes, and every route, handled so, passes one of the three application
  states.
\<close>

theorem redirect_dispatches_on_app_state:
  "(query ''state'' \<noteq> Some APP_STATES_login
      \<and> query ''state'' \<noteq> Some APP_STATES_call_api
      \<and> query ''state'' \<noteq> Some APP_STATES_password_reset
      \<longrightarrow> redirect_handler env pol query s = (s, [Send500 (TextBody ''Unknown'')]))
   \<and> (query ''state'' = Some APP_STATES_login \<or> query ''state'' = Some APP_STATES_call_api
      \<longrightarrow> hd (snd (redirect_handler env pol query s))
            = Call_acquireTokenByCode (tokenRequest (fst (redirect_handler env pol query s)))
          \<and> code (tokenRequest (fst (redirect_handler env pol query s))) = query ''code'')
   \<and> (query ''state'' = Some APP_STATES_password_reset
      \<longrightarrow> redirect_handler env pol query s
            = (s\<lparr>authCodeRequest := (authCodeRequest s)\<lparr>state := Some APP_STATES_login\<rparr>\<rparr>,
               [Redirect ''/login'']))
   \<and> (\<forall>req. Call_getAuthCodeUrl req \<in> set (snd (getAuthCode_callback env s))
      \<longrightarrow> state req = state (authCodeRequest s))
   \<and> (\<forall>req. Call_getAuthCodeUrl req \<in> set (snd (getAuthCode env a sc st s))
      \<longrightarrow> state req = Some st)
   \<and> (\<forall>req. Call_getAuthCodeUrl req \<in> set (snd (handle pol (env, r) s))
      \<longrightarrow> state req = Some APP_STATES_login \<or> state req = Some APP_STATES_call_api
          \<or> state req = Some APP_STATES_password_reset)"
proof -
  have "query ''state'' = Some APP_STATES_login \<or> query ''state'' = Some APP_STATES_call_api
      \<longrightarrow> hd (snd (redirect_handler env pol query s))
            = Call_acquireTokenByCode (tokenRequest (fst (redirect_handler env pol query s)))
          \<and> code (tokenRequest (fst (redirect_handler env pol query s))) = query ''code''"
    using redirect_login_exchanges [of query env pol s]
      redirect_call_api_exchanges [of query env pol s]
    by auto
  then show ?thesis
    using redirect_unknown_state [of query env pol s]
      redirect_password_reset [of query env pol s]
      getAuthCode_callback_request [of _ env s]
      getAuthCode_request_state [of _ env a sc st s]
      handle_request_state [of _ pol env r s]
    by blast
qed

text \<open>
  Witness: the state \<open>forged\<close> is answered with \<open>Unknown\<close>; the state \<open>login\<close>
  starts an exchange with the received code. When \<^verbatim>\<open>/api\<close> calls \<open>getAuthCode\<close>
  between the call made for \<^verbatim>\<open>/login\<close> and its callback, the authorization request
  sent by that callback carries the state \<open>call_api\<close>.
\<close>

theorem redirect_dispatches_on_app_state_witness:
  "[''state'' \<mapsto> ''forged'', ''code'' \<mapsto> ''c9''] ''state'' \<noteq> Some APP_STATES_login
   \<and> [''state'' \<mapsto> ''forged'', ''code'' \<mapsto> ''c9''] ''state'' \<noteq> Some APP_STATES_call_api
   \<and> [''state'' \<mapsto> ''forged'', ''code'' \<mapsto> ''c9''] ''state''
       \<noteq> Some APP_STATES_password_reset
   \<and> redirect_handler (example_env 0 (''v1'', ''c1'') (example_result [] 3600))
        example_policies [''state'' \<mapsto> ''forged'', ''code'' \<mapsto> ''c9''] initial_state
       = (initial_state, [Send500 (TextBody ''Unknown'')])
   \<and> login_query ''c9'' ''state'' = Some APP_STATES_login
   \<and> code (tokenRequest (fst (redirect_handler
                (example_env 0 (''v1'', ''c1'') (example_result [] 3600))
                example_policies (login_query ''c9'') initial_state)))
       = Some ''c9''
   \<and> Call_getAuthCodeUrl
        (new_request
           \<lparr>authority := Some (AuthorityUrl (signUpSignIn example_policies)),
            scopes := Some SCOPES_resource1, state := Some APP_STATES_call_api,
            codeChallenge := Some ''c1'', codeChallengeMethod := Some ''S256''\<rparr>)
       \<in> set (snd (getAuthCode_callback
                    (example_env 0 (''v1'', ''c1'') (example_result [] 3600))
                    (getAuthCode_request (signUpSignIn example_policies)
                            SCOPES_resource1 APP_STATES_call_api
                            (getAuthCode_request (signUpSignIn example_policies)
                                    SCOPES_oidc APP_STATES_login initial_state))))
   \<and> state (new_request
           \<lparr>authority := Some (AuthorityUrl (signUpSignIn example_policies)),
            scopes := Some SCOPES_resource1, state := Some APP_STATES_call_api,
            codeChallenge := Some ''c1'', codeChallengeMethod := Some ''S256''\<rparr>)
       = state (authCodeRequest
           (getAuthCode_request (signUpSignIn example_policies)
                   SCOPES_resource1 APP_STATES_call_api
                   (getAuthCode_request (signUpSignIn example_policies)
                           SCOPES_oidc APP_STATES_login initial_state)))"
proof -
  let ?env = "example_env 0 (''v1'', ''c1'') (example_result [] 3600)"
  let ?q = "[''state'' \<mapsto> ''forged'', ''code'' \<mapsto> ''c9'']"
  let ?s2 = "(getAuthCode_request (signUpSignIn example_policies)
                   SCOPES_resource1 APP_STATES_call_api
                   (getAuthCode_request (signUpSignIn example_policies)
                           SCOPES_oidc APP_STATES_login initial_state))"
  let ?req = "new_request
           \<lparr>authority := Some (AuthorityUrl (signUpSignIn example_policies)),
            scopes := Some SCOPES_resource1, state := Some APP_STATES_call_api,
            codeChallenge := Some ''c1'', codeChallengeMethod := Some ''S256''\<rparr>"
  have a: "?q ''state'' \<noteq> Some APP_STATES_login" "?q ''state'' \<noteq> Some APP_STATES_call_api"
    "?q ''state'' \<noteq> Some APP_STATES_password_reset"
    by (simp_all add: APP_STATES_login_def APP_STATES_call_api_def APP_STATES_password_reset_def)
  have b: "login_query ''c9'' ''state'' = Some APP_STATES_login"
    "login_query ''c9'' ''code'' = Some ''c9''"
    by (simp_all add: login_query_def APP_STATES_login_def)
  have m: "Call_getAuthCodeUrl ?req \<in> set (snd (getAuthCode_callback ?env ?s2))"
    by (simp add: getAuthCode_callback_def getAuthCode_request_def Let_def example_env_def
        initial_state_def)
  from redirect_dispatches_on_app_state
    [of ?q ?env example_policies initial_state "signUpSignIn example_policies" SCOPES_oidc
        APP_STATES_login Root] a
  have c: "redirect_handler ?env example_policies ?q initial_state
             = (initial_state, [Send500 (TextBody ''Unknown'')])"
    by blast
  from redirect_dispatches_on_app_state
    [of "login_query ''c9''" ?env example_policies initial_state
        "signUpSignIn example_policies" SCOPES_oidc APP_STATES_login Root] b
  have d: "code (tokenRequest (fst (redirect_handler ?env example_policies
             (login_query ''c9'') initial_state))) = Some ''c9''"
    by simp
  from redirect_dispatches_on_app_state
    [of ?q ?env example_policies ?s2 "signUpSignIn example_policies" SCOPES_oidc
        APP_STATES_login Root] m
  have e: "state ?req = state (authCodeRequest ?s2)"
    by blast
  show ?thesis using a b(1) c d m e by blast
qed

text \<open>
  C2 as stated fails on \<^verbatim>\<open>/redirect\<close>. In the initial state no authorization request
  has been made, yet a redirect with state \<open>login\<close> proceeds to the code exchange, with
  the empty verifier. And when the only pending request carries the state \<open>call_api\<close>, a
  redirect with state \<open>login\<close> proceeds as well.
\<close>

theorem redirect_without_pending_request_counterexample:
  "state (authCodeRequest initial_state) = None
   \<and> snd (redirect_handler (example_env 0 (''v1'', ''c1'') (example_result [] 3600))
            example_policies (login_query ''c9'') initial_state)
       = [Call_acquireTokenByCode
            (new_request\<lparr>scopes := Some SCOPES_oidc, code := Some ''c9'',
               codeVerifier := Some []\<rparr>),
          Render ''api'' (ApiUserParams False ''user@example'')]
   \<and> state (authCodeRequest
        (fst (api_handler (example_env 0 (''v1'', ''c1'') (example_result [] 3600))
                example_policies initial_state)))
       = Some APP_STATES_call_api
   \<and> snd (redirect_handler (example_env 5 (''v2'', ''c2'') (example_result [] 3600))
            example_policies (login_query ''c9'')
            (fst (api_handler (example_env 0 (''v1'', ''c1'') (example_result [] 3600))
                    example_policies initial_state)))
       = [Call_acquireTokenByCode
            (new_request\<lparr>scopes := Some SCOPES_oidc, code := Some ''c9'',
               codeVerifier := Some ''v1''\<rparr>),
          Render ''api'' (ApiUserParams False ''user@example'')]"
  by (simp add: redirect_handler_def api_handler_def getAuthCode_unfold Let_def js_truthy_def
      login_query_def APP_STATES_login_def APP_STATES_call_api_def example_env_def
      example_result_def initial_state_def new_request_def)

text \<open>
  C3 (as amended). The application holds one PKCE codes object shared by all routes.
  \<^verbatim>\<open>/redirect\<close> never changes it: the stored verifier is sent with the code exchange
  and is kept afterwards, on success and on failure. \<open>getAuthCode\<close> overwrites the
  stored verifier and challenge with the pair the generator resolves with, so of several
  outstanding requests only the latest verifier is kept; when the generator rejects, the
  stored codes stay as they are.
\<close>

theorem pkceCodes_shared_and_kept:
  "locals_pkceCodes (fst (redirect_handler env pol query s)) = locals_pkceCodes s
   \<and> (query ''state'' = Some APP_STATES_login \<or> query ''state'' = Some APP_STATES_call_api
      \<longrightarrow> hd (snd (redirect_handler env pol query s))
            = Call_acquireTokenByCode (tokenRequest (fst (redirect_handler env pol query s)))
          \<and> codeVerifier (tokenRequest (fst (redirect_handler env pol query s)))
            = Some (verifier (locals_pkceCodes s)))
   \<and> (\<forall>v c. generatePkceCodes env = Inr (v, c)
      \<longrightarrow> locals_pkceCodes (fst (getAuthCode env a sc st s))
            = (locals_pkceCodes s)\<lparr>verifier := v, challenge := c\<rparr>)
   \<and> (\<forall>e. generatePkceCodes env = Inl e
      \<longrightarrow> locals_pkceCodes (fst (getAuthCode env a sc st s)) = locals_pkceCodes s)"
proof -
  have "query ''state'' = Some APP_STATES_login \<or> query ''state'' = Some APP_STATES_call_api
      \<longrightarrow> hd (snd (redirect_handler env pol query s))
            = Call_acquireTokenByCode (tokenRequest (fst (redirect_handler env pol query s)))
          \<and> codeVerifier (tokenRequest (fst (redirect_handler env pol query s)))
            = Some (verifier (locals_pkceCodes s))"
    using redirect_login_exchanges [of query env pol s]
      redirect_call_api_exchanges [of query env pol s]
    by auto
  then show ?thesis
    using redirect_keeps_pkceCodes [of env pol query s]
      getAuthCode_stores_codes [of env _ _ a sc st s]
      getAuthCode_keeps_codes_on_failure [of env _ a sc st s]
    by blast
qed

text \<open>
  Witness: a login request stores the generated pair, and the redirect that follows sends
  its verifier.
\<close>

theorem pkceCodes_shared_and_kept_witness:
  "login_query ''a1'' ''state'' = Some APP_STATES_login
   \<and> generatePkceCodes (example_env 0 (''v1'', ''c1'') (example_result [] 3600))
       = Inr (''v1'', ''c1'')
   \<and> locals_pkceCodes (fst (getAuthCode (example_env 0 (''v1'', ''c1'') (example_result [] 3600))
         (signUpSignIn example_policies) SCOPES_oidc APP_STATES_login initial_state))
       = \<lparr>challengeMethod = ''S256'', verifier = ''v1'', challenge = ''c1''\<rparr>
   \<and> codeVerifier (tokenRequest (fst (redirect_handler
         (example_env 5 (''v2'', ''c2'') (example_result [] 3600)) example_policies
         (login_query ''a1'')
         (fst (getAuthCode (example_env 0 (''v1'', ''c1'') (example_result [] 3600))
            (signUpSignIn example_policies) SCOPES_oidc APP_STATES_login initial_state)))))
       = Some ''v1''"
proof -
  let ?env = "example_env 0 (''v1'', ''c1'') (example_result [] 3600)"
  let ?env' = "example_env 5 (''v2'', ''c2'') (example_result [] 3600)"
  let ?s1 = "fst (getAuthCode ?env (signUpSignIn example_policies) SCOPES_oidc
                APP_STATES_login initial_state)"
  have a: "login_query ''a1'' ''state'' = Some APP_STATES_login"
    by (simp add: login_query_def APP_STATES_login_def)
  have b: "generatePkceCodes ?env = Inr (''v1'', ''c1'')"
    by (simp add: example_env_def)
  from pkceCodes_shared_and_kept
    [of ?env example_policies "login_query ''a1''" initial_state
        "signUpSignIn example_policies" SCOPES_oidc APP_STATES_login] b
  have c: "locals_pkceCodes ?s1
             = (locals_pkceCodes initial_state)\<lparr>verifier := ''v1'', challenge := ''c1''\<rparr>"
    by blast
  from pkceCodes_shared_and_kept
    [of ?env' example_policies "login_query ''a1''" ?s1 "signUpSignIn example_policies"
        SCOPES_oidc APP_STATES_login] a
  have d: "codeVerifier (tokenRequest (fst (redirect_handler ?env' example_policies
             (login_query ''a1'') ?s1))) = Some (verifier (locals_pkceCodes ?s1))"
    by blast
  show ?thesis using a b c d by (simp add: initial_state_def)
qed

text \<open>
  C3 as stated fails. Two authorization requests are outstanding at once, \<^verbatim>\<open>/login\<close>
  with verifier \<open>v1\<close> and then \<^verbatim>\<open>/api\<close> with verifier \<open>v2\<close>; the second
  overwrites the first. The redirects of both requests send the same verifier \<open>v2\<close>, and
  after both code exchanges have completed the verifier \<open>v2\<close> is still stored.
\<close>

theorem pkce_verifier_reused_counterexample:
  "verifier (locals_pkceCodes
      (fst (login_handler (example_env 0 (''v1'', ''c1'') (example_result [] 3600))
              example_policies initial_state)))
     = ''v1''
   \<and> verifier (locals_pkceCodes
      (fst (api_handler (example_env 1 (''v2'', ''c2'') (example_result [] 3600))
              example_policies
              (fst (login_handler (example_env 0 (''v1'', ''c1'') (example_result [] 3600))
                      example_policies initial_state)))))
     = ''v2''
   \<and> codeVerifier (tokenRequest
      (fst (redirect_handler (example_env 2 (''v3'', ''c3'') (example_result [] 3600))
              example_policies (login_query ''a1'')
              (fst (api_handler (example_env 1 (''v2'', ''c2'') (example_result [] 3600))
                      example_policies
                      (fst (login_handler (example_env 0 (''v1'', ''c1'') (example_result [] 3600))
                              example_policies initial_state)))))))
     = Some ''v2''
   \<and> codeVerifier (tokenRequest
      (fst (redirect_handler (example_env 3 (''v4'', ''c4'') (example_result [] 3600))
              example_policies call_api_query
              (fst (redirect_handler (example_env 2 (''v3'', ''c3'') (example_result [] 3600))
                      example_policies (login_query ''a1'')
                      (fst (api_handler (example_env 1 (''v2'', ''c2'') (example_result [] 3600))
                              example_policies
                              (fst (login_handler
                                      (example_env 0 (''v1'', ''c1'') (example_result [] 3600))
                                      example_policies initial_state)))))))))
     = Some ''v2''
   \<and> verifier (locals_pkceCodes
      (fst (redirect_handler (example_env 3 (''v4'', ''c4'') (example_result [] 3600))
              example_policies call_api_query
              (fst (redirect_handler (example_env 2 (''v3'', ''c3'') (example_result [] 3600))
                      example_policies (login_query ''a1'')
                      (fst (api_handler (example_env 1 (''v2'', ''c2'') (example_result [] 3600))
                              example_policies
                              (fst (login_handler
                                      (example_env 0 (''v1'', ''c1'') (example_result [] 3600))
                                      example_policies initial_state)))))))))
     = ''v2''"
  by (simp add: redirect_handler_def api_handler_def login_handler_def getAuthCode_unfold
      Let_def js_truthy_def login_query_def call_api_query_def APP_STATES_login_def
      APP_STATES_call_api_def APP_STATES_password_reset_def example_env_def
      example_result_def initial_state_def new_request_def)

section \<open>Properties of the token engine\<close>

subsection \<open>PKCE codes\<close>

lemma length_base64UrlEncode: "length (base64UrlEncode bs) = (4 * length bs + 2) div 3"
  by (induction bs rule: base64UrlEncode.induct) simp_all

lemma length_base64url_alphabet: "length base64url_alphabet = 64"
  by (simp add: base64url_alphabet_def)

lemma base64url_char_in: "base64url_char i \<in> set base64url_alphabet"
  unfolding base64url_char_def
  by (rule nth_mem) (simp add: length_base64url_alphabet)

lemma alphabet_unreserved: "ch \<in> set base64url_alphabet \<Longrightarrow> unreserved ch"
  by (auto simp: base64url_alphabet_def unreserved_def)

lemma base64UrlEncode_alphabet: "set (base64UrlEncode bs) \<subseteq> set base64url_alphabet"
  by (induction bs rule: base64UrlEncode.induct) (simp_all add: base64url_char_in)

lemma base64UrlEncode_unreserved: "ch \<in> set (base64UrlEncode bs) \<Longrightarrow> unreserved ch"
  using base64UrlEncode_alphabet [of bs] alphabet_unreserved by blast

lemma base64UrlEncode_no_padding: "CHR ''='' \<notin> set (base64UrlEncode bs)"
  using base64UrlEncode_alphabet [of bs] by (auto simp: base64url_alphabet_def)

lemma base64UrlEncode_length_bounds:
  "32 \<le> length bs \<Longrightarrow> length bs \<le> 96 \<Longrightarrow>
     43 \<le> length (base64UrlEncode bs) \<and> length (base64UrlEncode bs) \<le> 128"
  by (simp add: length_base64UrlEncode) arith

lemma handle_keeps_challengeMethod:
  "challengeMethod (locals_pkceCodes (fst (handle pol r s))) = challengeMethod (locals_pkceCodes s)"
proof (cases r)
  case (Pair env rt)
  show ?thesis
    by (cases rt)
      (simp_all add: Pair root_handler_def login_handler_def profile_handler_def
        api_handler_def redirect_handler_def getAuthCode_unfold Let_def
        split: sum.splits prod.splits option.splits)
qed

lemma run_keeps_challengeMethod:
  "challengeMethod (locals_pkceCodes (run pol rs s)) = challengeMethod (locals_pkceCodes s)"
  by (induction rs arbitrary: s) (simp_all add: handle_keeps_challengeMethod)

lemma reachable_challengeMethod:
  "challengeMethod (locals_pkceCodes (run pol rs initial_state)) = ''S256''"
  by (simp add: run_keeps_challengeMethod initial_state_def)

lemma generate_Inr:
  assumes "generate c = Inr codes"
  obtains bytes digest where "randomBytes c 32 = Some bytes"
    and "sha256 c (bytes_of_string (base64UrlEncode bytes)) = Some digest"
    and "codes = \<lparr>challengeMethod = ''S256'', verifier = base64UrlEncode bytes,
                   challenge = base64UrlEncode digest\<rparr>"
  using assms by (auto simp: generate_def Let_def split: option.splits)

text \<open>
  C8. Every PKCE codes value that the generator produces, with a byte source that returns
  as many bytes as it is asked for, has the challenge method \<open>S256\<close>; its verifier is
  the encoding of 32 bytes from the byte source, has between 43 and 128 characters, all
  of them unreserved; its challenge is the unpadded base64url encoding of the SHA-256 hash
  of the verifier. The encoding of any 32 to 96 bytes has between 43 and 128 characters.
  In the sample the stored challenge method is \<open>S256\<close> in every reachable state, and
  \<open>getAuthCode\<close> stores exactly the generated codes.
\<close>

theorem generate_pkce_codes:
  assumes "generate c = Inr codes"
    and "\<forall>n bytes. randomBytes c n = Some bytes \<longrightarrow> length bytes = n"
  shows "challengeMethod codes = ''S256''
    \<and> (\<exists>bytes. randomBytes c 32 = Some bytes \<and> 32 \<le> length bytes
          \<and> verifier codes = base64UrlEncode bytes)
    \<and> 43 \<le> length (verifier codes) \<and> length (verifier codes) \<le> 128
    \<and> (\<forall>ch \<in> set (verifier codes). unreserved ch)
    \<and> (\<exists>digest. sha256 c (bytes_of_string (verifier codes)) = Some digest
          \<and> challenge codes = base64UrlEncode digest)
    \<and> CHR ''='' \<notin> set (challenge codes)
    \<and> (\<forall>bs. 32 \<le> length bs \<and> length bs \<le> 96
          \<longrightarrow> 43 \<le> length (base64UrlEncode bs) \<and> length (base64UrlEncode bs) \<le> 128)
    \<and> challengeMethod (locals_pkceCodes (run pol rs initial_state)) = ''S256''
    \<and> (generatePkceCodes env = cryptoProvider_generatePkceCodes c
          \<longrightarrow> locals_pkceCodes (fst (getAuthCode env a sc st (run pol rs initial_state)))
              = codes)"
proof -
  from assms(1) obtain bytes digest where r: "randomBytes c 32 = Some bytes"
    and h: "sha256 c (bytes_of_string (base64UrlEncode bytes)) = Some digest"
    and codes: "codes = \<lparr>challengeMethod = ''S256'', verifier = base64UrlEncode bytes,
                   challenge = base64UrlEncode digest\<rparr>"
    by (rule generate_Inr)
  from assms(2) r have len: "length bytes = 32" by blast
  have v: "verifier codes = base64UrlEncode bytes" and ch: "challenge codes = base64UrlEncode digest"
    and m: "challengeMethod codes = ''S256''"
    by (simp_all add: codes)
  have l: "length (verifier codes) = 43"
    by (simp add: v length_base64UrlEncode len)
  have u: "\<forall>ch \<in> set (verifier codes). unreserved ch"
    by (simp add: v base64UrlEncode_unreserved)
  have p: "CHR ''='' \<notin> set (challenge codes)"
    by (simp add: ch base64UrlEncode_no_padding)
  have g: "generatePkceCodes env = cryptoProvider_generatePkceCodes c
          \<longrightarrow> locals_pkceCodes (fst (getAuthCode env a sc st (run pol rs initial_state)))
              = codes"
  proof
    assume "generatePkceCodes env = cryptoProvider_generatePkceCodes c"
    then have "generatePkceCodes env = Inr (verifier codes, challenge codes)"
      by (simp add: cryptoProvider_generatePkceCodes_def assms(1))
    then have "locals_pkceCodes (fst (getAuthCode env a sc st (run pol rs initial_state)))
                 = (locals_pkceCodes (run pol rs initial_state))
                     \<lparr>verifier := verifier codes, challenge := challenge codes\<rparr>"
      by (rule getAuthCode_stores_codes)
    moreover have "challengeMethod (locals_pkceCodes (run pol rs initial_state)) = ''S256''"
      by (rule reachable_challengeMethod)
    ultimately show "locals_pkceCodes (fst (getAuthCode env a sc st (run pol rs initial_state)))
              = codes"
      by (simp add: codes)
  qed
  show ?thesis
    using m r len v l u h ch p g base64UrlEncode_length_bounds
      reachable_challengeMethod [of pol rs]
    by auto
qed

text \<open>Witness: the codes generated from the bytes 0 to 31, and their use by the sample.\<close>

theorem generate_pkce_codes_witness:
  "generate example_crypto
     = Inr \<lparr>challengeMethod = ''S256'',
            verifier = ''AAECAwQFBgcICQoLDA0ODxAREhMUFRYXGBkaGxwdHh8'',
            challenge = ''KysrKysrKysrKysrKysrKysrKysrKysrKysrKysrKys''\<rparr>
   \<and> length ''AAECAwQFBgcICQoLDA0ODxAREhMUFRYXGBkaGxwdHh8'' = 43
   \<and> randomBytes example_crypto 32 = Some (map of_nat [0..<32])
   \<and> locals_pkceCodes
        (fst (getAuthCode
                ((example_env 0 (''v1'', ''c1'') (example_result [] 3600))
                   \<lparr>generatePkceCodes :=
                      Inr (''AAECAwQFBgcICQoLDA0ODxAREhMUFRYXGBkaGxwdHh8'',
                           ''KysrKysrKysrKysrKysrKysrKysrKysrKysrKysrKys'')\<rparr>)
                (signUpSignIn example_policies) SCOPES_oidc APP_STATES_login
                (run example_policies [] initial_state)))
       = \<lparr>challengeMethod = ''S256'',
          verifier = ''AAECAwQFBgcICQoLDA0ODxAREhMUFRYXGBkaGxwdHh8'',
          challenge = ''KysrKysrKysrKysrKysrKysrKysrKysrKysrKysrKys''\<rparr>"
proof -
  let ?codes = "\<lparr>challengeMethod = ''S256'',
            verifier = ''AAECAwQFBgcICQoLDA0ODxAREhMUFRYXGBkaGxwdHh8'',
            challenge = ''KysrKysrKysrKysrKysrKysrKysrKysrKysrKysrKys''\<rparr>"
  let ?env = "(example_env 0 (''v1'', ''c1'') (example_result [] 3600))
                   \<lparr>generatePkceCodes :=
                      Inr (''AAECAwQFBgcICQoLDA0ODxAREhMUFRYXGBkaGxwdHh8'',
                           ''KysrKysrKysrKysrKysrKysrKysrKysrKysrKysrKys'')\<rparr>"
  have a: "generate example_crypto = Inr ?codes"
    by code_simp
  have b: "\<forall>n bytes. randomBytes example_crypto n = Some bytes \<longrightarrow> length bytes = n"
    by (auto simp: example_crypto_def)
  have c: "generatePkceCodes ?env = cryptoProvider_generatePkceCodes example_crypto"
    by (simp add: cryptoProvider_generatePkceCodes_def a)
  have d: "randomBytes example_crypto 32 = Some (map of_nat [0..<32])"
    by (simp add: example_crypto_def)
  from generate_pkce_codes [OF a b, of example_policies "[]" ?env
      "signUpSignIn example_policies" SCOPES_oidc APP_STATES_login] c
  have "locals_pkceCodes (fst (getAuthCode ?env (signUpSignIn example_policies) SCOPES_oidc
          APP_STATES_login (run example_policies [] initial_state))) = ?codes"
    by blast
  then show ?thesis using a d by simp
qed

subsection \<open>Code exchange and token validation\<close>

lemma validateIdToken_nonce_mismatch:
  assumes "signing_key (kid token) = Some key"
    and "verifySignature c (alg token) key (signed_data token) (signature token)"
    and "\<not> exp_time (claims token) + skew < now"
    and "iss (claims token) = expected_issuer ex"
    and "expected_audience ex \<in> set (aud (claims token))"
    and "expected_nonce ex = Some n"
    and "nonce (claims token) \<noteq> Some n"
  shows "validateIdToken c signing_key now skew token ex = Inl NonceMismatchError"
  using assms by (simp add: validateIdToken_def)

lemma exchange_validation_failure:
  assumes "httpPost (token_endpoint md) (code_exchange_request cfg code' pending) = (status, body)"
    and "200 \<le> status" and "status < 300"
    and "validateIdToken c sk now (config_skew cfg) (id_token body)
           (id_token_expectation md cfg (Some (pending_nonce pending))) = Inl e"
  shows "exchangeCodeForTokens c sk httpPost now cfg md code' pending cache = (Inl e, cache)"
  using assms by (simp add: exchangeCodeForTokens_def)

lemma exchange_failure_keeps_cache:
  "fst (exchangeCodeForTokens c sk httpPost now cfg md code' pending cache) = Inl e \<Longrightarrow>
     snd (exchangeCodeForTokens c sk httpPost now cfg md code' pending cache) = cache"
  by (auto simp: exchangeCodeForTokens_def split: prod.splits if_splits sum.splits)

lemma redirect_call_api_failure:
  assumes "query ''state'' = Some APP_STATES_call_api"
    and "acquireTokenByCode env
           ((tokenRequest s)\<lparr>authority := Some (AuthorityUrl (signUpSignIn pol)),
              scopes := Some SCOPES_resource1, code := query ''code'',
              codeVerifier := Some (verifier (locals_pkceCodes s))\<rparr>) = Inl e"
  shows "locals_accessToken (fst (redirect_handler env pol query s)) = locals_accessToken s
    \<and> last (snd (redirect_handler env pol query s)) = Send500 (ErrorBody e)"
  using assms app_states_distinct
  by (simp add: redirect_handler_def Let_def)

text \<open>
  C4. A code exchange that fails leaves the credential cache as it was: no Account,
  IdToken, AccessToken or RefreshToken is written. When the token endpoint answers with a
  2xx status and the validation of the ID token fails, the exchange fails with the
  validator's error; in particular, when signature, expiry, issuer and audience pass and
  the nonce claim differs from the nonce of the pending record, it fails with
  \<open>NonceMismatchError\<close>. In the sample, when \<^verbatim>\<open>acquireTokenByCode\<close> rejects in the
  \<^verbatim>\<open>call_api\<close> branch, the stored access token is unchanged and the error is sent with
  status 500.
\<close>

theorem failed_validation_writes_nothing:
  "(\<forall>e. fst (exchangeCodeForTokens c sk httpPost now cfg md code' pending cache) = Inl e
      \<longrightarrow> snd (exchangeCodeForTokens c sk httpPost now cfg md code' pending cache) = cache)
   \<and> (\<forall>status body e.
        httpPost (token_endpoint md) (code_exchange_request cfg code' pending) = (status, body)
        \<and> 200 \<le> status \<and> status < 300
        \<and> validateIdToken c sk now (config_skew cfg) (id_token body)
             (id_token_expectation md cfg (Some (pending_nonce pending))) = Inl e
      \<longrightarrow> exchangeCodeForTokens c sk httpPost now cfg md code' pending cache = (Inl e, cache))
   \<and> (\<forall>status body key.
        httpPost (token_endpoint md) (code_exchange_request cfg code' pending) = (status, body)
        \<and> 200 \<le> status \<and> status < 300
        \<and> sk (kid (id_token body)) = Some key
        \<and> verifySignature c (alg (id_token body)) key (signed_data (id_token body))
             (signature (id_token body))
        \<and> \<not> exp_time (claims (id_token body)) + config_skew cfg < now
        \<and> iss (claims (id_token body)) = issuer md
        \<and> config_clientId cfg \<in> set (aud (claims (id_token body)))
        \<and> nonce (claims (id_token body)) \<noteq> Some (pending_nonce pending)
      \<longrightarrow> exchangeCodeForTokens c sk httpPost now cfg md code' pending cache
            = (Inl NonceMismatchError, cache))
   \<and> (\<forall>e. query ''state'' = Some APP_STATES_call_api
        \<and> acquireTokenByCode env
             ((tokenRequest s)\<lparr>authority := Some (AuthorityUrl (signUpSignIn pol)),
                scopes := Some SCOPES_resource1, code := query ''code'',
                codeVerifier := Some (verifier (locals_pkceCodes s))\<rparr>) = Inl e
      \<longrightarrow> locals_accessToken (fst (redirect_handler env pol query s)) = locals_accessToken s
          \<and> last (snd (redirect_handler env pol query s)) = Send500 (ErrorBody e))"
proof -
  have n: "\<And>status body key.
        httpPost (token_endpoint md) (code_exchange_request cfg code' pending) = (status, body)
        \<Longrightarrow> 200 \<le> status \<Longrightarrow> status < 300
        \<Longrightarrow> sk (kid (id_token body)) = Some key
        \<Longrightarrow> verifySignature c (alg (id_token body)) key (signed_data (id_token body))
             (signature (id_token body))
        \<Longrightarrow> \<not> exp_time (claims (id_token body)) + config_skew cfg < now
        \<Longrightarrow> iss (claims (id_token body)) = issuer md
        \<Longrightarrow> config_clientId cfg \<in> set (aud (claims (id_token body)))
        \<Longrightarrow> nonce (claims (id_token body)) \<noteq> Some (pending_nonce pending)
        \<Longrightarrow> exchangeCodeForTokens c sk httpPost now cfg md code' pending cache
            = (Inl NonceMismatchError, cache)"
  proof -
    fix status body key
    assume a: "httpPost (token_endpoint md) (code_exchange_request cfg code' pending) = (status, body)"
      "200 \<le> status" "status < 300"
      and b: "sk (kid (id_token body)) = Some key"
      "verifySignature c (alg (id_token body)) key (signed_data (id_token body))
             (signature (id_token body))"
      "\<not> exp_time (claims (id_token body)) + config_skew cfg < now"
      "iss (claims (id_token body)) = issuer md"
      "config_clientId cfg \<in> set (aud (claims (id_token body)))"
      "nonce (claims (id_token body)) \<noteq> Some (pending_nonce pending)"
    have "validateIdToken c sk now (config_skew cfg) (id_token body)
            (id_token_expectation md cfg (Some (pending_nonce pending))) = Inl NonceMismatchError"
      using b by (intro validateIdToken_nonce_mismatch) (simp_all add: id_token_expectation_def)
    with a show "exchangeCodeForTokens c sk httpPost now cfg md code' pending cache
            = (Inl NonceMismatchError, cache)"
      by (rule exchange_validation_failure)
  qed
  show ?thesis
    using exchange_failure_keeps_cache [of c sk httpPost now cfg md code' pending cache]
      exchange_validation_failure [of httpPost md cfg code' pending _ _ c sk now _ cache]
      n redirect_call_api_failure [of query env s pol]
    by blast
qed

text \<open>
  Witness: the nonce \<open>n1\<close> is expected and the token claims \<open>n2\<close>; the exchange fails
  with \<open>NonceMismatchError\<close> and the cache is the one before. The sample's handler, given
  that error, keeps its stored token and answers 500.
\<close>

theorem failed_validation_writes_nothing_witness:
  "nonce (claims (id_token (example_response ''n2''))) \<noteq> Some (pending_nonce example_pending)
   \<and> exchangeCodeForTokens example_crypto example_signing_key
        (\<lambda>url request. (200, example_response ''n2'')) 1000 example_config example_metadata
        ''code1'' example_pending example_cache
       = (Inl NonceMismatchError, example_cache)
   \<and> locals_accessToken
        (fst (redirect_handler
                ((example_env 0 (''v1'', ''c1'') (example_result [] 0))
                   \<lparr>acquireTokenByCode := (\<lambda>request. Inl NonceMismatchError)\<rparr>)
                example_policies call_api_query initial_state))
       = locals_accessToken initial_state
   \<and> last (snd (redirect_handler
                ((example_env 0 (''v1'', ''c1'') (example_result [] 0))
                   \<lparr>acquireTokenByCode := (\<lambda>request. Inl NonceMismatchError)\<rparr>)
                example_policies call_api_query initial_state))
       = Send500 (ErrorBody NonceMismatchError)"
proof -
  let ?post = "\<lambda>url request. (200 :: nat, example_response ''n2'')"
  let ?env = "(example_env 0 (''v1'', ''c1'') (example_result [] 0))
                \<lparr>acquireTokenByCode := (\<lambda>request. Inl NonceMismatchError)\<rparr>"
  let ?body = "example_response ''n2''"
  have p: "?post (token_endpoint example_metadata)
             (code_exchange_request example_config ''code1'' example_pending) = (200, ?body)"
    "(200 :: nat) \<le> 200" "(200 :: nat) < 300"
    by simp_all
  have k: "example_signing_key (kid (id_token ?body)) = Some ''key1''"
    by (simp add: example_signing_key_def example_response_def example_id_token_def)
  have v: "verifySignature example_crypto (alg (id_token ?body)) ''key1''
             (signed_data (id_token ?body)) (signature (id_token ?body))"
    by (simp add: example_crypto_def example_response_def example_id_token_def)
  have t: "\<not> exp_time (claims (id_token ?body)) + config_skew example_config < 1000"
    by (simp add: example_response_def example_id_token_def example_config_def)
  have i: "iss (claims (id_token ?body)) = issuer example_metadata"
    by (simp add: example_response_def example_id_token_def example_metadata_def)
  have a: "config_clientId example_config \<in> set (aud (claims (id_token ?body)))"
    by (simp add: example_response_def example_id_token_def example_config_def)
  have n: "nonce (claims (id_token ?body)) \<noteq> Some (pending_nonce example_pending)"
    by (simp add: example_response_def example_id_token_def example_pending_def)
  have q: "call_api_query ''state'' = Some APP_STATES_call_api"
    by (simp add: call_api_query_def APP_STATES_call_api_def)
  have f: "acquireTokenByCode ?env
             ((tokenRequest initial_state)
                \<lparr>authority := Some (AuthorityUrl (signUpSignIn example_policies)),
                 scopes := Some SCOPES_resource1, code := call_api_query ''code'',
                 codeVerifier := Some (verifier (locals_pkceCodes initial_state))\<rparr>)
           = Inl NonceMismatchError"
    by simp
  note inst = failed_validation_writes_nothing
    [of example_crypto example_signing_key ?post 1000 example_config example_metadata
        "''code1''" example_pending example_cache call_api_query ?env initial_state
        example_policies]
  from inst p k v t i a n
  have x: "exchangeCodeForTokens example_crypto example_signing_key ?post 1000 example_config
             example_metadata ''code1'' example_pending example_cache
           = (Inl NonceMismatchError, example_cache)"
    by blast
  from inst q f
  have y: "locals_accessToken (fst (redirect_handler ?env example_policies call_api_query
             initial_state)) = locals_accessToken initial_state
           \<and> last (snd (redirect_handler ?env example_policies call_api_query initial_state))
             = Send500 (ErrorBody NonceMismatchError)"
    by blast
  show ?thesis using n x y by blast
qed

subsection \<open>Silent renewal\<close>

lemma getRefreshToken_key:
  "getRefreshToken cache a client = Some rt \<Longrightarrow>
     refreshToken_key rt = (homeAccountId a, environment a, client)"
  by (auto simp: getRefreshToken_def find_Some_iff)

lemma getRefreshToken_removed:
  "refreshToken_key rt = (homeAccountId a, environment a, client) \<Longrightarrow>
     getRefreshToken (removeRefreshToken rt cache) a client = None"
  by (simp add: getRefreshToken_def removeRefreshToken_def find_None_iff)

lemma find_filter_other:
  "(\<And>x. P x \<Longrightarrow> Q x) \<Longrightarrow> find P (filter Q xs) = find P xs"
  by (induction xs) auto

lemma getRefreshToken_other_kept:
  "refreshToken_key rt \<noteq> (homeAccountId a, environment a, client) \<Longrightarrow>
     getRefreshToken (removeRefreshToken rt cache) a client = getRefreshToken cache a client"
proof -
  assume "refreshToken_key rt \<noteq> (homeAccountId a, environment a, client)"
  then have "find (\<lambda>c. refreshToken_key c = (homeAccountId a, environment a, client))
               (filter (\<lambda>c. refreshToken_key c \<noteq> refreshToken_key rt) (refreshTokens cache))
             = find (\<lambda>c. refreshToken_key c = (homeAccountId a, environment a, client))
                 (refreshTokens cache)"
    by (intro find_filter_other) auto
  then show ?thesis
    by (simp add: getRefreshToken_def removeRefreshToken_def)
qed

text \<open>
  C6. On an access-token miss with a refresh token cached: when the redemption is rejected
  by the provider because the refresh token is invalid, expired or revoked, the call fails
  with \<open>InteractionRequiredError\<close>, a following \<open>getRefreshToken\<close> for the same account
  and client is a miss, and the refresh tokens under other keys are as before; when the
  redemption fails with a transient error, the call fails with \<open>TransientServerError\<close>,
  the cache is unchanged and the refresh token is still there.
\<close>

theorem silent_refresh_failure:
  assumes miss: "getAccessToken cache now (config_skew cfg) a (config_clientId cfg) requested
             (tenantId a) = None"
    and rt: "getRefreshToken cache a (config_clientId cfg) = Some rt"
  shows "(\<forall>reason. redeem (token_endpoint md) (refresh_request cfg rt requested)
                     = RefreshTokenRejected reason
            \<longrightarrow> fst (acquireTokenSilent c sk redeem now cfg md a requested cache)
                  = Inl InteractionRequiredError
                \<and> getRefreshToken
                    (fst (snd (acquireTokenSilent c sk redeem now cfg md a requested cache)))
                    a (config_clientId cfg) = None
                \<and> (\<forall>a' client'.
                      (homeAccountId a', environment a', client') \<noteq> refreshToken_key rt
                      \<longrightarrow> getRefreshToken
                            (fst (snd (acquireTokenSilent c sk redeem now cfg md a requested
                                         cache)))
                            a' client'
                          = getRefreshToken cache a' client'))
     \<and> (redeem (token_endpoint md) (refresh_request cfg rt requested) = TransientFailure
            \<longrightarrow> fst (acquireTokenSilent c sk redeem now cfg md a requested cache)
                  = Inl TransientServerError
                \<and> fst (snd (acquireTokenSilent c sk redeem now cfg md a requested cache)) = cache
                \<and> getRefreshToken
                    (fst (snd (acquireTokenSilent c sk redeem now cfg md a requested cache)))
                    a (config_clientId cfg) = Some rt)"
proof (intro conjI allI impI)
  fix reason
  assume r: "redeem (token_endpoint md) (refresh_request cfg rt requested)
               = RefreshTokenRejected reason"
  have eq: "acquireTokenSilent c sk redeem now cfg md a requested cache
              = (Inl InteractionRequiredError, removeRefreshToken rt cache, 1)"
    by (simp add: acquireTokenSilent_def miss rt r)
  show "fst (acquireTokenSilent c sk redeem now cfg md a requested cache)
          = Inl InteractionRequiredError"
    by (simp add: eq)
  show "getRefreshToken
          (fst (snd (acquireTokenSilent c sk redeem now cfg md a requested cache)))
          a (config_clientId cfg) = None"
    using getRefreshToken_key [OF rt] by (simp add: eq getRefreshToken_removed)
  fix a' :: account and client'
  assume "(homeAccountId a', environment a', client') \<noteq> refreshToken_key rt"
  then show "getRefreshToken
          (fst (snd (acquireTokenSilent c sk redeem now cfg md a requested cache)))
          a' client' = getRefreshToken cache a' client'"
    by (simp add: eq getRefreshToken_other_kept)
next
  assume t: "redeem (token_endpoint md) (refresh_request cfg rt requested) = TransientFailure"
  have eq: "acquireTokenSilent c sk redeem now cfg md a requested cache
              = (Inl TransientServerError, cache, 1)"
    by (simp add: acquireTokenSilent_def miss rt t)
  show "fst (acquireTokenSilent c sk redeem now cfg md a requested cache)
          = Inl TransientServerError"
    by (simp add: eq)
  show "fst (snd (acquireTokenSilent c sk redeem now cfg md a requested cache)) = cache"
    by (simp add: eq)
  show "getRefreshToken
          (fst (snd (acquireTokenSilent c sk redeem now cfg md a requested cache)))
          a (config_clientId cfg) = Some rt"
    by (simp add: eq rt)
qed

text \<open>
  Witness: the provider answers \<open>invalid_grant\<close>, and then a transient failure, for the
  account of the example cache.
\<close>

theorem silent_refresh_failure_witness:
  "getAccessToken example_cache 1000 (config_skew example_config) example_account
       (config_clientId example_config) [''read''] (tenantId example_account) = None
   \<and> getRefreshToken example_cache example_account (config_clientId example_config)
       = Some example_refresh_token
   \<and> fst (acquireTokenSilent example_crypto example_signing_key
             (\<lambda>url request. RefreshTokenRejected ''invalid_grant'') 1000 example_config
             example_metadata example_account [''read''] example_cache)
       = Inl InteractionRequiredError
   \<and> getRefreshToken
        (fst (snd (acquireTokenSilent example_crypto example_signing_key
             (\<lambda>url request. RefreshTokenRejected ''invalid_grant'') 1000 example_config
             example_metadata example_account [''read''] example_cache)))
        example_account (config_clientId example_config)
       = None
   \<and> fst (acquireTokenSilent example_crypto example_signing_key
             (\<lambda>url request. TransientFailure) 1000 example_config
             example_metadata example_account [''read''] example_cache)
       = Inl TransientServerError
   \<and> getRefreshToken
        (fst (snd (acquireTokenSilent example_crypto example_signing_key
             (\<lambda>url request. TransientFailure) 1000 example_config
             example_metadata example_account [''read''] example_cache)))
        example_account (config_clientId example_config)
       = Some example_refresh_token"
proof -
  have m: "getAccessToken example_cache 1000 (config_skew example_config) example_account
       (config_clientId example_config) [''read''] (tenantId example_account) = None"
    by (simp add: getAccessToken_def example_cache_def)
  have r: "getRefreshToken example_cache example_account (config_clientId example_config)
       = Some example_refresh_token"
    by (simp add: getRefreshToken_def example_cache_def example_refresh_token_def
        example_account_def example_config_def refreshToken_key_def)
  from silent_refresh_failure [OF m r, of "\<lambda>url request. RefreshTokenRejected ''invalid_grant''"
      example_metadata example_crypto example_signing_key]
  have x: "fst (acquireTokenSilent example_crypto example_signing_key
             (\<lambda>url request. RefreshTokenRejected ''invalid_grant'') 1000 example_config
             example_metadata example_account [''read''] example_cache)
       = Inl InteractionRequiredError
     \<and> getRefreshToken
        (fst (snd (acquireTokenSilent example_crypto example_signing_key
             (\<lambda>url request. RefreshTokenRejected ''invalid_grant'') 1000 example_config
             example_metadata example_account [''read''] example_cache)))
        example_account (config_clientId example_config)
       = None"
    by blast
  from silent_refresh_failure [OF m r, of "\<lambda>url request. TransientFailure"
      example_metadata example_crypto example_signing_key]
  have y: "fst (acquireTokenSilent example_crypto example_signing_key
             (\<lambda>url request. TransientFailure) 1000 example_config
             example_metadata example_account [''read''] example_cache)
       = Inl TransientServerError
     \<and> getRefreshToken
        (fst (snd (acquireTokenSilent example_crypto example_signing_key
             (\<lambda>url request. TransientFailure) 1000 example_config
             example_metadata example_account [''read''] example_cache)))
        example_account (config_clientId example_config)
       = Some example_refresh_token"
    by blast
  show ?thesis using m r x y by blast
qed

section \<open>Two calls in succession\<close>

lemma silent_hit:
  "getAccessToken cache now (config_skew cfg) a (config_clientId cfg) requested (tenantId a)
     = Some hit \<Longrightarrow>
   acquireTokenSilent c sk redeem now cfg md a requested cache = (Inr hit, cache, 0)"
  by (simp add: acquireTokenSilent_def)

lemma latest_filter: "latest xs = Some t \<Longrightarrow> P t \<Longrightarrow> latest (filter P xs) = Some t"
proof (induction xs arbitrary: t)
  case Nil
  then show ?case by simp
next
  case (Cons c cs)
  show ?case
  proof (cases "latest cs")
    case None
    then have "cs = []" by (simp add: latest_None)
    with Cons.prems show ?thesis by simp
  next
    case (Some d)
    show ?thesis
    proof (cases "cachedAt c < cachedAt d")
      case True
      with Some Cons.prems have "t = d" by simp
      with Cons.IH Some Cons.prems have "latest (filter P cs) = Some d" by simp
      with True \<open>t = d\<close> show ?thesis by simp
    next
      case False
      with Some Cons.prems have t: "t = c" by simp
      show ?thesis
      proof (cases "latest (filter P cs)")
        case None
        with t Cons.prems show ?thesis by simp
      next
        case (Some e)
        then have "e \<in> set cs" using latest_in [of "filter P cs" e] by simp
        with \<open>latest cs = Some d\<close> have "cachedAt e \<le> cachedAt d" by (rule latest_max)
        with False have "\<not> cachedAt c < cachedAt e" by simp
        with Some t Cons.prems show ?thesis by simp
      qed
    qed
  qed
qed

lemma within_skew_later:
  "now1 \<le> now2 \<Longrightarrow> within_skew_of_expiry skew now1 e \<Longrightarrow> within_skew_of_expiry skew now2 e"
  by (simp add: within_skew_of_expiry_def)

lemma getAccessToken_later:
  assumes hit: "getAccessToken cache now1 skew a client requested tenant = Some hit"
    and later: "now1 \<le> now2"
    and fresh: "\<not> within_skew_of_expiry skew now2 (expiresOn hit)"
  shows "getAccessToken cache now2 skew a client requested tenant = Some hit"
proof -
  let ?m = "\<lambda>now c. homeAccountId c = homeAccountId a \<and> environment c = environment a
              \<and> clientId c = client \<and> realm c = tenant
              \<and> set requested \<subseteq> set (target c)
              \<and> \<not> within_skew_of_expiry skew now (expiresOn c)"
  have sub: "filter (?m now2) (accessTokens cache)
               = filter (?m now2) (filter (?m now1) (accessTokens cache))"
    using later by (auto simp: within_skew_later intro!: filter_cong)
  have l1: "latest (filter (?m now1) (accessTokens cache)) = Some hit"
    using hit by (simp add: getAccessToken_def)
  have "?m now2 hit"
    using getAccessToken_Some [OF hit] fresh by simp
  with l1 have "latest (filter (?m now2) (filter (?m now1) (accessTokens cache))) = Some hit"
    by (rule latest_filter)
  then show ?thesis
    unfolding getAccessToken_def using sub by simp
qed

text \<open>
  C7 (as amended). Two calls of \<open>acquireTokenSilent\<close> in succession, with no change of
  the cache in between: when the first call is a cache hit, the clock of the second call
  is not before that of the first, and the token the first call returned is still outside
  the skew window at the second call, then both calls return that same credential, leave
  the cache as it is and make no call to the token endpoint. At any clock, a call that is
  a cache hit returns the hit, leaves the cache as it is and makes no call to the token
  endpoint.
\<close>

theorem silent_twice_same_token_no_network:
  "(getAccessToken cache now1 (config_skew cfg) a (config_clientId cfg) requested (tenantId a)
      = Some hit
    \<and> now1 \<le> now2
    \<and> \<not> within_skew_of_expiry (config_skew cfg) now2 (expiresOn hit)
    \<longrightarrow> acquireTokenSilent c sk redeem1 now1 cfg md a requested cache = (Inr hit, cache, 0)
      \<and> acquireTokenSilent c sk redeem2 now2 cfg md a requested
           (fst (snd (acquireTokenSilent c sk redeem1 now1 cfg md a requested cache)))
         = (Inr hit, cache, 0))
   \<and> (\<forall>now t. getAccessToken cache now (config_skew cfg) a (config_clientId cfg) requested
                 (tenantId a) = Some t
        \<longrightarrow> acquireTokenSilent c sk redeem1 now cfg md a requested cache = (Inr t, cache, 0))"
proof (intro conjI allI impI)
  assume h: "getAccessToken cache now1 (config_skew cfg) a (config_clientId cfg) requested
               (tenantId a) = Some hit
    \<and> now1 \<le> now2
    \<and> \<not> within_skew_of_expiry (config_skew cfg) now2 (expiresOn hit)"
  then have second: "getAccessToken cache now2 (config_skew cfg) a (config_clientId cfg)
                       requested (tenantId a) = Some hit"
    using getAccessToken_later [of cache now1 "config_skew cfg" a "config_clientId cfg"
        requested "tenantId a" hit now2]
    by blast
  show first: "acquireTokenSilent c sk redeem1 now1 cfg md a requested cache
                 = (Inr hit, cache, 0)"
    using h by (simp add: silent_hit)
  show "acquireTokenSilent c sk redeem2 now2 cfg md a requested
          (fst (snd (acquireTokenSilent c sk redeem1 now1 cfg md a requested cache)))
        = (Inr hit, cache, 0)"
    using second by (simp add: first silent_hit)
next
  fix now t
  assume "getAccessToken cache now (config_skew cfg) a (config_clientId cfg) requested
            (tenantId a) = Some t"
  then show "acquireTokenSilent c sk redeem1 now cfg md a requested cache = (Inr t, cache, 0)"
    by (rule silent_hit)
qed

text \<open>
  Witness: calls at the times 1000 and 2000 on the cache whose token expires at 3600,
  with the skew 300.
\<close>

theorem silent_twice_same_token_no_network_witness:
  "getAccessToken example_cache_with_token 1000 (config_skew example_config)
       example_account (config_clientId example_config) [''read'']
       (tenantId example_account)
     = Some example_access_token
   \<and> (1000 :: int) \<le> 2000
   \<and> \<not> within_skew_of_expiry (config_skew example_config) 2000
         (expiresOn example_access_token)
   \<and> acquireTokenSilent example_crypto example_signing_key
        (\<lambda>url request. TransientFailure) 1000 example_config example_metadata
        example_account [''read''] example_cache_with_token
       = (Inr example_access_token, example_cache_with_token, 0)
   \<and> acquireTokenSilent example_crypto example_signing_key
        (\<lambda>url request. TransientFailure) 2000 example_config example_metadata
        example_account [''read'']
        (fst (snd (acquireTokenSilent example_crypto example_signing_key
                     (\<lambda>url request. TransientFailure) 1000 example_config example_metadata
                     example_account [''read''] example_cache_with_token)))
       = (Inr example_access_token, example_cache_with_token, 0)"
proof -
  let ?redeem = "\<lambda>(url :: string) (request :: token_request). TransientFailure"
  have g: "getAccessToken example_cache_with_token 1000 (config_skew example_config)
        example_account (config_clientId example_config) [''read'']
        (tenantId example_account)
       = Some example_access_token"
    by (simp add: getAccessToken_def example_cache_with_token_def example_cache_def
        example_access_token_def example_account_def example_config_def
        within_skew_of_expiry_def)
  have l: "(1000 :: int) \<le> 2000"
    by simp
  have f: "\<not> within_skew_of_expiry (config_skew example_config) 2000
             (expiresOn example_access_token)"
    by (simp add: within_skew_of_expiry_def example_config_def example_access_token_def)
  from silent_twice_same_token_no_network
    [of example_cache_with_token 1000 example_config example_account "[''read'']"
        example_access_token 2000 example_crypto example_signing_key ?redeem
        example_metadata ?redeem] g l f
  have "acquireTokenSilent example_crypto example_signing_key ?redeem 1000 example_config
          example_metadata example_account [''read''] example_cache_with_token
        = (Inr example_access_token, example_cache_with_token, 0)
      \<and> acquireTokenSilent example_crypto example_signing_key ?redeem 2000 example_config
          example_metadata example_account [''read'']
          (fst (snd (acquireTokenSilent example_crypto example_signing_key ?redeem 1000
                       example_config example_metadata example_account [''read'']
                       example_cache_with_token)))
        = (Inr example_access_token, example_cache_with_token, 0)"
    by blast
  then show ?thesis using g l f by blast
qed

text \<open>
  C7 as stated fails. The cache holds two tokens that match a request for \<open>read\<close>: one
  cached at time 0 that expires at 3600, fresh at both calls, and one cached at time 10
  that expires at 1400. With the skew 300 and no change of the cache in between, the call
  at time 1099 returns the token cached last, and the call at time 1100, when that token
  has entered the skew window, returns the other one. Both calls are cache hits with no
  call to the token endpoint, and their token results differ.
\<close>

theorem silent_twice_different_tokens_counterexample:
  "\<not> within_skew_of_expiry (config_skew example_config) 1099 (expiresOn example_access_token)
   \<and> \<not> within_skew_of_expiry (config_skew example_config) 1100
         (expiresOn example_access_token)
   \<and> acquireTokenSilent example_crypto example_signing_key
        (\<lambda>url request. TransientFailure) 1099 example_config example_metadata
        example_account [''read''] example_cache_two_tokens
       = (Inr example_short_token, example_cache_two_tokens, 0)
   \<and> acquireTokenSilent example_crypto example_signing_key
        (\<lambda>url request. TransientFailure) 1100 example_config example_metadata
        example_account [''read'']
        (fst (snd (acquireTokenSilent example_crypto example_signing_key
                     (\<lambda>url request. TransientFailure) 1099 example_config example_metadata
                     example_account [''read''] example_cache_two_tokens)))
       = (Inr example_access_token, example_cache_two_tokens, 0)
   \<and> secret example_short_token \<noteq> secret example_access_token"
  by (simp add: acquireTokenSilent_def getAccessToken_def example_cache_two_tokens_def
      example_cache_with_token_def example_cache_def setCredential_def put_def
      accessToken_key_def example_short_token_def example_access_token_def
      example_account_def example_config_def within_skew_of_expiry_def)

text \<open>
  In the sample, with an access token stored, two \<^verbatim>\<open>/api\<close> requests in succession
  each call the web API with the same stored token; neither calls the library, and the
  state after both is the state before.
\<close>

lemma api_twice_same_token:
  assumes "js_truthy (locals_accessToken s)"
  shows "\<exists>token. locals_accessToken s = Some token
     \<and> hd (snd (api_handler env1 pol s)) = Call_callWebApi webApiUri token
     \<and> hd (snd (api_handler env2 pol (fst (api_handler env1 pol s))))
         = Call_callWebApi webApiUri token
     \<and> filter is_library_call (snd (api_handler env2 pol (fst (api_handler env1 pol s)))) = []
     \<and> fst (api_handler env2 pol (fst (api_handler env1 pol s))) = s"
proof -
  from assms obtain token where t: "locals_accessToken s = Some token" "token \<noteq> []"
    by (auto simp: js_truthy_def split: option.splits)
  have "fst (api_handler env1 pol s) = s"
    by (simp add: api_hit [OF t])
  then show ?thesis
    using t api_hit [OF t, of env1 pol] api_hit [OF t, of env2 pol]
      api_hit_no_library_call [OF t, of env2 pol]
    by simp
qed

end
